theory Spec2Isabelle
  imports Complex_Main
begin

section \<open>Values exchanged over HTTP\<close>

text \<open>
  Request bodies are parsed JSON; the handlers read them untyped (\<open>req.body\<close> is \<open>any\<close>),
  so a body is an arbitrary JSON value and a missing property reads as \<open>undefined\<close>.
\<close>

datatype json =
    JUndefined
  | JNull
  | JBool bool
  | JNum real
  | JStr string
  | JArr "json list"
  | JObj "(string \<times> json) list"

text \<open>JavaScript truthiness, as used by \<open>!x\<close>, \<open>if (x)\<close> and \<open>a || b\<close>.\<close>

fun truthy :: "json \<Rightarrow> bool" where
  "truthy JUndefined = False"
| "truthy JNull = False"
| "truthy (JBool b) = b"
| "truthy (JNum x) = (x \<noteq> 0)"
| "truthy (JStr s) = (s \<noteq> [])"
| "truthy (JArr xs) = True"
| "truthy (JObj kvs) = True"

text \<open>A value of type \<open>string | undefined\<close>: truthy when present and non-empty.\<close>

fun truthy_str :: "string option \<Rightarrow> bool" where
  "truthy_str None = False"
| "truthy_str (Some s) = (s \<noteq> [])"

text \<open>Property access \<open>body.k\<close> on a value that is not \<open>undefined\<close> or \<open>null\<close>.\<close>

fun get_field :: "json \<Rightarrow> string \<Rightarrow> json" where
  "get_field (JObj kvs) k = (case map_of kvs k of Some v \<Rightarrow> v | None \<Rightarrow> JUndefined)"
| "get_field j k = JUndefined"

text \<open>Destructuring \<open>const { a, b } = req.body\<close> throws a TypeError on \<open>undefined\<close> and \<open>null\<close>.\<close>

fun destructurable :: "json \<Rightarrow> bool" where
  "destructurable JUndefined = False"
| "destructurable JNull = False"
| "destructurable j = True"

type_synonym exn = string

record segment =
  seg_start :: real
  seg_end :: real
  seg_text :: string

text \<open>
  The error bodies the router sends, one constructor per message of the source; the
  carried values are the ones the source interpolates into the message or passes as details.
\<close>

datatype api_error =
    InvalidYouTubeURL
  | JobNotFound
  | FailedInstantContext exn
  | InvalidRequestData
  | LocalVoiceSamplePathNotFound string
  | FailedToCloneVoice exn
  | VideoTranscriptNotFound
  | FailedToGetContextWindow exn
  | MaxQuestionsExceeded nat
  | FailedToBuildConversation exn
  | MissingRequiredParameters
  | VideoDataNotFound
  | TranscriptMissingOrEmpty
  | VoiceNotFound
  | ContextWindowNotFound
  | FailedToCreateAgent exn
  | AgentNotFound
  | FailedToStreamConversation exn

text \<open>
  What a handler does with \<open>res\<close>: \<open>SendError status e\<close> for \<open>sendError\<close> and
  \<open>res.status(n).json({error})\<close>, \<open>SendJson\<close> for \<open>res.json\<close> (status 200), \<open>Accepted\<close> for
  \<open>res.status(202).json\<close>, and \<open>Unhandled\<close> when an exception escapes a handler that has no
  \<open>try\<close> around the failing call (no response is sent).
\<close>

datatype response =
    SendError nat api_error
  | SendJson json
  | Accepted json
  | Unhandled exn

fun status :: "response \<Rightarrow> nat option" where
  "status (SendError n e) = Some n"
| "status (SendJson j) = Some 200"
| "status (Accepted j) = Some 202"
| "status (Unhandled x) = None"

section \<open>Validation schemas\<close>

text \<open>\<open>z.string().min(1)\<close>: a string of length at least one.\<close>

fun z_string_min1 :: "json \<Rightarrow> string option" where
  "z_string_min1 (JStr s) = (if s \<noteq> [] then Some s else None)"
| "z_string_min1 j = None"

text \<open>
  \<open>z.string().url()\<close>: a string accepted by the URL parser of the validation library, which
  is a parameter of the model (\<open>isUrl\<close>).
\<close>

fun z_string_url :: "(string \<Rightarrow> bool) \<Rightarrow> json \<Rightarrow> string option" where
  "z_string_url isUrl (JStr s) = (if isUrl s then Some s else None)"
| "z_string_url isUrl j = None"

text \<open>\<open>z.number().min(0)\<close>.\<close>

fun z_number_min0 :: "json \<Rightarrow> real option" where
  "z_number_min0 (JNum x) = (if 0 \<le> x then Some x else None)"
| "z_number_min0 j = None"

text \<open>\<open>z.object\<close> accepts objects only; unknown keys are dropped from the parsed data.\<close>

fun z_object :: "json \<Rightarrow> bool" where
  "z_object (JObj kvs) = True"
| "z_object j = False"

definition prepareContextSchema :: "(string \<Rightarrow> bool) \<Rightarrow> json \<Rightarrow> string option" where
  "prepareContextSchema isUrl body =
     (if z_object body then z_string_url isUrl (get_field body ''videoUrl'') else None)"

definition cloneVoiceSchema :: "(string \<Rightarrow> bool) \<Rightarrow> json \<Rightarrow> (string \<times> string \<times> string) option" where
  "cloneVoiceSchema isUrl body =
     (if z_object body then
        (case (z_string_min1 (get_field body ''videoId''),
               z_string_min1 (get_field body ''speakerName''),
               z_string_url isUrl (get_field body ''sampleUrl'')) of
           (Some videoId, Some speakerName, Some sampleUrl) \<Rightarrow> Some (videoId, speakerName, sampleUrl)
         | _ \<Rightarrow> None)
      else None)"

definition getContextWindowSchema :: "json \<Rightarrow> (string \<times> real) option" where
  "getContextWindowSchema body =
     (if z_object body then
        (case (z_string_min1 (get_field body ''videoId''),
               z_number_min0 (get_field body ''pausedTime'')) of
           (Some videoId, Some pausedTime) \<Rightarrow> Some (videoId, pausedTime)
         | _ \<Rightarrow> None)
      else None)"

definition buildConversationSchema ::
  "json \<Rightarrow> (string \<times> string \<times> string \<times> string \<times> string) option" where
  "buildConversationSchema body =
     (if z_object body then
        (case (z_string_min1 (get_field body ''videoId''),
               z_string_min1 (get_field body ''voiceId''),
               z_string_min1 (get_field body ''speakerName''),
               z_string_min1 (get_field body ''contextWindow''),
               z_string_min1 (get_field body ''userQuestionText'')) of
           (Some videoId, Some voiceId, Some speakerName, Some contextWindow, Some userQuestionText) \<Rightarrow>
             Some (videoId, voiceId, speakerName, contextWindow, userQuestionText)
         | _ \<Rightarrow> None)
      else None)"

definition streamConversationSchema :: "json \<Rightarrow> (string \<times> string) option" where
  "streamConversationSchema body =
     (if z_object body then
        (case (z_string_min1 (get_field body ''videoId''),
               z_string_min1 (get_field body ''text'')) of
           (Some videoId, Some text) \<Rightarrow> Some (videoId, text)
         | _ \<Rightarrow> None)
      else None)"

section \<open>The stores\<close>

subsection \<open>Cache Store\<close>

text \<open>
  A cache entry, with every field optional. \<open>cachedData?.voiceId\<close> of the source reads
  \<open>ce_voiceId\<close> of the entry when there is one.
\<close>

record cache_entry =
  ce_voiceId :: "string option"
  ce_speakerName :: "string option"
  ce_voiceSamplePath :: "string option"

definition empty_entry :: cache_entry where
  "empty_entry = \<lparr>ce_voiceId = None, ce_speakerName = None, ce_voiceSamplePath = None\<rparr>"

text \<open>
  Modelled from the spec: the cache service (\<open>services/cache_service\<close>) is not among the
  sources. Section 4.1 gives its contract: \<open>get(videoId)\<close> returns the entry or absent, and
  \<open>merge(videoId, partialEntry)\<close> updates only the supplied fields.
\<close>

definition merge_entry :: "cache_entry \<Rightarrow> cache_entry \<Rightarrow> cache_entry" where
  "merge_entry old new =
     \<lparr>ce_voiceId = (case ce_voiceId new of Some x \<Rightarrow> Some x | None \<Rightarrow> ce_voiceId old),
      ce_speakerName = (case ce_speakerName new of Some x \<Rightarrow> Some x | None \<Rightarrow> ce_speakerName old),
      ce_voiceSamplePath =
        (case ce_voiceSamplePath new of Some x \<Rightarrow> Some x | None \<Rightarrow> ce_voiceSamplePath old)\<rparr>"

definition cache_merge ::
  "(string \<rightharpoonup> cache_entry) \<Rightarrow> string \<Rightarrow> cache_entry \<Rightarrow> (string \<rightharpoonup> cache_entry)" where
  "cache_merge c videoId partial =
     c(videoId \<mapsto> merge_entry (case c videoId of None \<Rightarrow> empty_entry | Some e \<Rightarrow> e) partial)"

subsection \<open>Session Store\<close>

record session_state =
  ss_transcript :: "segment list option"
  ss_voiceId :: "string option"
  ss_agentId :: "string option"
  ss_speakerName :: "string option"
  ss_voiceSamplePath :: "string option"
  ss_questionCount :: nat
  ss_contextWindowCache :: "real \<rightharpoonup> string"

definition empty_session :: session_state where
  "empty_session =
     \<lparr>ss_transcript = None, ss_voiceId = None, ss_agentId = None, ss_speakerName = None,
      ss_voiceSamplePath = None, ss_questionCount = 0, ss_contextWindowCache = Map.empty\<rparr>"

section \<open>The state of the server and its collaborators\<close>

text \<open>
  \<open>files\<close> is the set of transient audio files on local disk; the three call logs record every
  invocation of the external cloning, agent-creation and streaming collaborators; \<open>queue\<close>
  holds the submitted jobs as (videoId, videoUrl, speakerName).
\<close>

record state =
  cache :: "string \<rightharpoonup> cache_entry"
  memory :: "string \<rightharpoonup> session_state"
  files :: "string set"
  cloneCalls :: "(json \<times> string) list"
  agentCalls :: "(json \<times> string \<times> string) list"
  streamCalls :: "(string \<times> string) list"
  queue :: "(string \<times> json \<times> json) list"

text \<open>
  The collaborators and configuration constants the router uses and whose code is not among
  the sources. Each external call either throws (\<open>Inl\<close>) or returns (\<open>Inr\<close>).
\<close>

record env =
  isUrl :: "string \<Rightarrow> bool"
  extractVideoId :: "json \<Rightarrow> exn + string option"
  downloadAudioSegment :: "json \<Rightarrow> json \<Rightarrow> exn + string"
  transcribeAudio :: "string \<Rightarrow> exn + segment list"
  extractVoiceSample :: "string \<Rightarrow> nat \<Rightarrow> exn + string"
  cleanup :: "string \<Rightarrow> exn + unit"
  cloneVoice :: "json \<Rightarrow> string \<Rightarrow> exn + string"
  getContextWindow :: "segment list \<Rightarrow> real \<Rightarrow> real \<Rightarrow> exn + string"
  buildConversationConfig :: "string \<Rightarrow> string \<Rightarrow> string \<Rightarrow> string \<Rightarrow> exn + json"
  createAgent :: "json \<Rightarrow> string \<Rightarrow> string \<Rightarrow> exn + string"
  streamConversation :: "string \<Rightarrow> string \<Rightarrow> exn + json"
  queueAdd :: "string \<times> json \<times> json \<Rightarrow> exn + string"
  cacheReadFails :: "exn option"
  cacheWriteFails :: "exn option"
  MAX_QUESTIONS_PER_VIDEO :: nat
  MAX_CONTEXT_WINDOW_SECONDS :: real

text \<open>
  Modelled from the spec: the memory service (\<open>services/memory\<close>) is not among the sources.
  Section 4.2 gives its contract: a record per video, created empty with
  \<open>questionCount = 0\<close> on first access, idempotent setters, an increment of the counter, and a
  context-window cache matched on the exact \<open>pausedTime\<close>. Reads of a video without a record
  see the empty record; \<open>getVideoData\<close> alone tells the two apart, as the source tests its
  result for \<open>undefined\<close>.
\<close>

definition getOrCreate :: "state \<Rightarrow> string \<Rightarrow> session_state" where
  "getOrCreate s videoId = (case memory s videoId of None \<Rightarrow> empty_session | Some r \<Rightarrow> r)"

definition getVideoData :: "state \<Rightarrow> string \<Rightarrow> session_state option" where
  "getVideoData s videoId = memory s videoId"

definition getTranscript :: "state \<Rightarrow> string \<Rightarrow> segment list option" where
  "getTranscript s videoId = ss_transcript (getOrCreate s videoId)"

definition getVoiceId :: "state \<Rightarrow> string \<Rightarrow> string option" where
  "getVoiceId s videoId = ss_voiceId (getOrCreate s videoId)"

definition getAgentId :: "state \<Rightarrow> string \<Rightarrow> string option" where
  "getAgentId s videoId = ss_agentId (getOrCreate s videoId)"

definition getQuestionCount :: "state \<Rightarrow> string \<Rightarrow> nat" where
  "getQuestionCount s videoId = ss_questionCount (getOrCreate s videoId)"

definition getCachedContextWindow :: "state \<Rightarrow> string \<Rightarrow> real \<Rightarrow> string option" where
  "getCachedContextWindow s videoId pausedTime =
     ss_contextWindowCache (getOrCreate s videoId) pausedTime"

definition setTranscript :: "state \<Rightarrow> string \<Rightarrow> segment list \<Rightarrow> state" where
  "setTranscript s videoId t =
     s\<lparr>memory := (memory s)(videoId \<mapsto> (getOrCreate s videoId)\<lparr>ss_transcript := Some t\<rparr>)\<rparr>"

definition setVoiceId :: "state \<Rightarrow> string \<Rightarrow> string \<Rightarrow> state" where
  "setVoiceId s videoId v =
     s\<lparr>memory := (memory s)(videoId \<mapsto> (getOrCreate s videoId)\<lparr>ss_voiceId := Some v\<rparr>)\<rparr>"

definition setAgentId :: "state \<Rightarrow> string \<Rightarrow> string \<Rightarrow> state" where
  "setAgentId s videoId a =
     s\<lparr>memory := (memory s)(videoId \<mapsto> (getOrCreate s videoId)\<lparr>ss_agentId := Some a\<rparr>)\<rparr>"

definition setVideoData :: "state \<Rightarrow> string \<Rightarrow> string \<Rightarrow> string \<Rightarrow> state" where
  "setVideoData s videoId v speakerName =
     s\<lparr>memory := (memory s)(videoId \<mapsto>
        (getOrCreate s videoId)\<lparr>ss_voiceId := Some v, ss_speakerName := Some speakerName\<rparr>)\<rparr>"

definition incrementQuestionCount :: "state \<Rightarrow> string \<Rightarrow> state" where
  "incrementQuestionCount s videoId =
     s\<lparr>memory := (memory s)(videoId \<mapsto>
        (getOrCreate s videoId)\<lparr>ss_questionCount := Suc (ss_questionCount (getOrCreate s videoId))\<rparr>)\<rparr>"

definition cacheContextWindow :: "state \<Rightarrow> string \<Rightarrow> real \<Rightarrow> string \<Rightarrow> state" where
  "cacheContextWindow s videoId pausedTime w =
     s\<lparr>memory := (memory s)(videoId \<mapsto>
        (getOrCreate s videoId)\<lparr>ss_contextWindowCache :=
           (ss_contextWindowCache (getOrCreate s videoId))(pausedTime \<mapsto> w)\<rparr>)\<rparr>"

text \<open>
  The cache service as the router calls it: \<open>getVideoData\<close> and \<open>getVoiceId\<close> read the entry,
  \<open>setVideoData\<close> is the merge of Section 4.1. A call fails when the store is unavailable.
\<close>

definition cache_getVideoData :: "env \<Rightarrow> state \<Rightarrow> string \<Rightarrow> exn + cache_entry option" where
  "cache_getVideoData E s videoId =
     (case cacheReadFails E of Some x \<Rightarrow> Inl x | None \<Rightarrow> Inr (cache s videoId))"

definition cache_getVoiceId :: "env \<Rightarrow> state \<Rightarrow> string \<Rightarrow> exn + string option" where
  "cache_getVoiceId E s videoId =
     (case cacheReadFails E of Some x \<Rightarrow> Inl x
      | None \<Rightarrow> Inr (case cache s videoId of None \<Rightarrow> None | Some e \<Rightarrow> ce_voiceId e))"

definition cache_setVideoData :: "env \<Rightarrow> state \<Rightarrow> string \<Rightarrow> cache_entry \<Rightarrow> exn + state" where
  "cache_setVideoData E s videoId partial =
     (case cacheWriteFails E of Some x \<Rightarrow> Inl x
      | None \<Rightarrow> Inr (s\<lparr>cache := cache_merge (cache s) videoId partial\<rparr>))"

section \<open>The conversational turns\<close>

text \<open>POST /build-conversation. Nothing in the handler is awaited: it runs as one step.\<close>

definition build_conversation :: "env \<Rightarrow> state \<Rightarrow> json \<Rightarrow> response \<times> state" where
  "build_conversation E s body =
     (case buildConversationSchema body of
        None \<Rightarrow> (SendError 400 InvalidRequestData, s)
      | Some (videoId, voiceId, speakerName, contextWindow, userQuestionText) \<Rightarrow>
          let questionCount = getQuestionCount s videoId in
          if questionCount \<ge> MAX_QUESTIONS_PER_VIDEO E
          then (SendError 429 (MaxQuestionsExceeded (MAX_QUESTIONS_PER_VIDEO E)), s)
          else
            let s1 = incrementQuestionCount s videoId in
            (case buildConversationConfig E voiceId speakerName contextWindow userQuestionText of
               Inl x \<Rightarrow> (SendError 500 (FailedToBuildConversation x), s1)
             | Inr conversation \<Rightarrow> (SendJson (JObj [(''conversation'', conversation)]), s1)))"

text \<open>
  POST /stream-conversation, in the two parts its single \<open>await\<close> cuts it into. The first
  part runs without suspension up to the call of the provider and either answers at once or
  leaves the call (agentId, text) pending; the second part turns the provider's outcome
  into the response and touches no store.
\<close>

definition stream_conversation_begin ::
  "env \<Rightarrow> state \<Rightarrow> json \<Rightarrow> (response + string \<times> string) \<times> state" where
  "stream_conversation_begin E s body =
     (case streamConversationSchema body of
        None \<Rightarrow> (Inl (SendError 400 InvalidRequestData), s)
      | Some (videoId, text) \<Rightarrow>
          let questionCount = getQuestionCount s videoId in
          if questionCount \<ge> MAX_QUESTIONS_PER_VIDEO E
          then (Inl (SendError 429 (MaxQuestionsExceeded (MAX_QUESTIONS_PER_VIDEO E))), s)
          else
            let s1 = incrementQuestionCount s videoId;
                agentId = getAgentId s1 videoId
            in if \<not> truthy_str agentId
               then (Inl (SendError 404 AgentNotFound), s1)
               else (Inr (the agentId, text),
                     s1\<lparr>streamCalls := streamCalls s1 @ [(the agentId, text)]\<rparr>))"

definition stream_conversation_end :: "env \<Rightarrow> string \<times> string \<Rightarrow> response" where
  "stream_conversation_end E pending =
     (case streamConversation E (fst pending) (snd pending) of
        Inl x \<Rightarrow> SendError 500 (FailedToStreamConversation x)
      | Inr r \<Rightarrow> SendJson r)"

definition stream_conversation :: "env \<Rightarrow> state \<Rightarrow> json \<Rightarrow> response \<times> state" where
  "stream_conversation E s body =
     (case stream_conversation_begin E s body of
        (Inl r, s') \<Rightarrow> (r, s')
      | (Inr pending, s') \<Rightarrow> (stream_conversation_end E pending, s'))"






section \<open>The durable lane: POST /prepare-context\<close>

text \<open>
  The handler has no \<open>try\<close>: an exception of the destructuring, of \<open>extractVideoId\<close> or of
  the queue escapes it. \<open>prepareContextSchema\<close> is not applied to the body.
\<close>

definition prepare_context :: "env \<Rightarrow> state \<Rightarrow> json \<Rightarrow> response \<times> state" where
  "prepare_context E s body =
     (if \<not> destructurable body then (Unhandled ''TypeError'', s)
      else
        let videoUrl = get_field body ''videoUrl'';
            speakerName = get_field body ''speakerName''
        in (case extractVideoId E videoUrl of
              Inl x \<Rightarrow> (Unhandled x, s)
            | Inr videoId \<Rightarrow>
                if \<not> truthy_str videoId then (SendError 400 InvalidYouTubeURL, s)
                else
                  let job = (the videoId, videoUrl,
                             if truthy speakerName then speakerName
                             else JStr (''Speaker for '' @ the videoId))
                  in (case queueAdd E job of
                        Inl x \<Rightarrow> (Unhandled x, s)
                      | Inr jobId \<Rightarrow>
                          (Accepted (JObj [(''message'',
                                      JStr ''Video processing has started in the background.''),
                                     (''jobId'', JStr jobId)]),
                           s\<lparr>queue := queue s @ [job]\<rparr>))))"

section \<open>The fast lane: POST /instant-context\<close>

text \<open>\<open>segmentTranscript.map(s => s.text).join(' ')\<close>.\<close>

fun join_space :: "string list \<Rightarrow> string" where
  "join_space [] = []"
| "join_space [x] = x"
| "join_space (x # y # ys) = x @ '' '' @ join_space (y # ys)"

text \<open>
  Steps 4 and 5 once the segment is downloaded (\<open>s1\<close> already holds the file \<open>audioPath\<close>)
  and transcribed. Every \<open>Inl\<close> branch is the \<open>catch\<close> of the handler, which only answers 500.
\<close>

definition instant_context_clone ::
  "env \<Rightarrow> state \<Rightarrow> string \<Rightarrow> json \<Rightarrow> string \<Rightarrow> string option \<Rightarrow> string \<Rightarrow> response \<times> state" where
  "instant_context_clone E s1 videoId speakerName audioPath voiceId contextWindow =
     (if \<not> truthy_str voiceId then
        (case extractVoiceSample E audioPath 30 of
           Inl x \<Rightarrow> (SendError 500 (FailedInstantContext x), s1)
         | Inr voiceSamplePath \<Rightarrow>
             let s2 = s1\<lparr>files := insert voiceSamplePath (files s1),
                         cloneCalls := cloneCalls s1 @ [(speakerName, voiceSamplePath)]\<rparr>
             in (case cloneVoice E speakerName voiceSamplePath of
                   Inl x \<Rightarrow> (SendError 500 (FailedInstantContext x), s2)
                 | Inr newVoiceId \<Rightarrow>
                     (case cache_setVideoData E s2 videoId (empty_entry\<lparr>ce_voiceId := Some newVoiceId\<rparr>) of
                        Inl x \<Rightarrow> (SendError 500 (FailedInstantContext x), s2)
                      | Inr s3 \<Rightarrow>
                          (case cleanup E voiceSamplePath of
                             Inl x \<Rightarrow> (SendError 500 (FailedInstantContext x), s3)
                           | Inr u \<Rightarrow>
                               let s4 = s3\<lparr>files := files s3 - {voiceSamplePath}\<rparr>
                               in (case cleanup E audioPath of
                                     Inl x \<Rightarrow> (SendError 500 (FailedInstantContext x), s4)
                                   | Inr u \<Rightarrow>
                                       (SendJson (JObj [(''videoId'', JStr videoId),
                                                        (''voiceId'', JStr newVoiceId),
                                                        (''contextWindow'', JStr contextWindow)]),
                                        s4\<lparr>files := files s4 - {audioPath}\<rparr>))))))
      else
        (case cleanup E audioPath of
           Inl x \<Rightarrow> (SendError 500 (FailedInstantContext x), s1)
         | Inr u \<Rightarrow>
             (SendJson (JObj [(''videoId'', JStr videoId),
                              (''voiceId'', JStr (the voiceId)),
                              (''contextWindow'', JStr contextWindow)]),
              s1\<lparr>files := files s1 - {audioPath}\<rparr>)))"

definition instant_context :: "env \<Rightarrow> state \<Rightarrow> json \<Rightarrow> response \<times> state" where
  "instant_context E s body =
     (if \<not> destructurable body then (SendError 500 (FailedInstantContext ''TypeError''), s)
      else
        let videoUrl = get_field body ''videoUrl'';
            pausedTime = get_field body ''pausedTime'';
            speakerName = get_field body ''speakerName''
        in (case extractVideoId E videoUrl of
              Inl x \<Rightarrow> (SendError 500 (FailedInstantContext x), s)
            | Inr videoId \<Rightarrow>
                if \<not> truthy_str videoId then (SendError 400 InvalidYouTubeURL, s)
                else
                  (case cache_getVoiceId E s (the videoId) of
                     Inl x \<Rightarrow> (SendError 500 (FailedInstantContext x), s)
                   | Inr voiceId \<Rightarrow>
                       (case downloadAudioSegment E videoUrl pausedTime of
                          Inl x \<Rightarrow> (SendError 500 (FailedInstantContext x), s)
                        | Inr audioPath \<Rightarrow>
                            let s1 = s\<lparr>files := insert audioPath (files s)\<rparr>
                            in (case transcribeAudio E audioPath of
                                  Inl x \<Rightarrow> (SendError 500 (FailedInstantContext x), s1)
                                | Inr segmentTranscript \<Rightarrow>
                                    instant_context_clone E s1 (the videoId) speakerName audioPath voiceId
                                      (join_space (map seg_text segmentTranscript)))))))"

text \<open>
  The part of step 4 that runs once the cloning provider has been called on the extracted
  sample: the outcome of the call, the cache write, the two removals and the response. The
  handler is suspended while the provider works, so this part runs on whatever state \<open>s\<close> the
  server is in by then.
\<close>

definition instant_context_resume ::
  "env \<Rightarrow> state \<Rightarrow> string \<Rightarrow> json \<Rightarrow> string \<Rightarrow> string \<Rightarrow> string \<Rightarrow> response \<times> state" where
  "instant_context_resume E s videoId speakerName audioPath voiceSamplePath contextWindow =
     (case cloneVoice E speakerName voiceSamplePath of
        Inl x \<Rightarrow> (SendError 500 (FailedInstantContext x), s)
      | Inr newVoiceId \<Rightarrow>
          (case cache_setVideoData E s videoId (empty_entry\<lparr>ce_voiceId := Some newVoiceId\<rparr>) of
             Inl x \<Rightarrow> (SendError 500 (FailedInstantContext x), s)
           | Inr s3 \<Rightarrow>
               (case cleanup E voiceSamplePath of
                  Inl x \<Rightarrow> (SendError 500 (FailedInstantContext x), s3)
                | Inr u \<Rightarrow>
                    let s4 = s3\<lparr>files := files s3 - {voiceSamplePath}\<rparr>
                    in (case cleanup E audioPath of
                          Inl x \<Rightarrow> (SendError 500 (FailedInstantContext x), s4)
                        | Inr u \<Rightarrow>
                            (SendJson (JObj [(''videoId'', JStr videoId),
                                             (''voiceId'', JStr newVoiceId),
                                             (''contextWindow'', JStr contextWindow)]),
                             s4\<lparr>files := files s4 - {audioPath}\<rparr>)))))"

section \<open>POST /clone-voice\<close>

definition clone_voice :: "env \<Rightarrow> state \<Rightarrow> json \<Rightarrow> response \<times> state" where
  "clone_voice E s body =
     (case cloneVoiceSchema (isUrl E) body of
        None \<Rightarrow> (SendError 400 InvalidRequestData, s)
      | Some (videoId, speakerName, sampleUrl) \<Rightarrow>
          (case cache_getVideoData E s videoId of
             Inl x \<Rightarrow> (SendError 500 (FailedToCloneVoice x), s)
           | Inr cachedData \<Rightarrow>
               let cachedVoiceId = (case cachedData of None \<Rightarrow> None | Some e \<Rightarrow> ce_voiceId e) in
               if truthy_str cachedVoiceId
               then (SendJson (JObj [(''videoId'', JStr videoId),
                                     (''voiceId'', JStr (the cachedVoiceId)),
                                     (''message'', JStr ''Voice already cloned for this video (from cache).'')]),
                     s)
               else
                 let videoData = getVideoData s videoId;
                     localVoiceSamplePath =
                       (case videoData of None \<Rightarrow> None | Some d \<Rightarrow> ss_voiceSamplePath d)
                 in if \<not> truthy_str localVoiceSamplePath
                    then (SendError 404 (LocalVoiceSamplePathNotFound videoId), s)
                    else
                      let s1 = s\<lparr>cloneCalls := cloneCalls s @ [(JStr speakerName, the localVoiceSamplePath)]\<rparr>
                      in (case cloneVoice E (JStr speakerName) (the localVoiceSamplePath) of
                            Inl x \<Rightarrow> (SendError 500 (FailedToCloneVoice x), s1)
                          | Inr newVoiceId \<Rightarrow>
                              let dataToCache =
                                    (case cachedData of None \<Rightarrow> empty_entry | Some e \<Rightarrow> e)
                                      \<lparr>ce_voiceId := Some newVoiceId, ce_speakerName := Some speakerName\<rparr>
                              in (case cache_setVideoData E s1 videoId dataToCache of
                                    Inl x \<Rightarrow> (SendError 500 (FailedToCloneVoice x), s1)
                                  | Inr s2 \<Rightarrow>
                                      let s3 = setVoiceId s2 videoId newVoiceId;
                                          s4 = setVideoData s3 videoId newVoiceId speakerName
                                      in (SendJson (JObj [(''videoId'', JStr videoId),
                                                          (''voiceId'', JStr newVoiceId),
                                                          (''message'', JStr ''Voice cloned successfully.'')]),
                                          s4)))))"

text \<open>
  POST /clone-voice in the two parts the \<open>await\<close> of the cloning provider cuts it into. The
  first part runs up to the call of the provider and either answers at once or leaves the
  call pending, together with what the handler holds in local variables: \<open>videoId\<close>,
  \<open>speakerName\<close>, the \<open>cachedData\<close> it read, and the sample path. The second part runs when
  the provider has answered, on the state \<open>s\<close> the server is in by then, and writes
  \<open>{...cachedData, voiceId, speakerName}\<close> from the \<open>cachedData\<close> read in the first part.
\<close>

definition clone_voice_begin ::
  "env \<Rightarrow> state \<Rightarrow> json \<Rightarrow>
     (response + string \<times> string \<times> cache_entry option \<times> string) \<times> state" where
  "clone_voice_begin E s body =
     (case cloneVoiceSchema (isUrl E) body of
        None \<Rightarrow> (Inl (SendError 400 InvalidRequestData), s)
      | Some (videoId, speakerName, sampleUrl) \<Rightarrow>
          (case cache_getVideoData E s videoId of
             Inl x \<Rightarrow> (Inl (SendError 500 (FailedToCloneVoice x)), s)
           | Inr cachedData \<Rightarrow>
               let cachedVoiceId = (case cachedData of None \<Rightarrow> None | Some e \<Rightarrow> ce_voiceId e) in
               if truthy_str cachedVoiceId
               then (Inl (SendJson (JObj [(''videoId'', JStr videoId),
                                     (''voiceId'', JStr (the cachedVoiceId)),
                                     (''message'', JStr ''Voice already cloned for this video (from cache).'')])),
                     s)
               else
                 let videoData = getVideoData s videoId;
                     localVoiceSamplePath =
                       (case videoData of None \<Rightarrow> None | Some d \<Rightarrow> ss_voiceSamplePath d)
                 in if \<not> truthy_str localVoiceSamplePath
                    then (Inl (SendError 404 (LocalVoiceSamplePathNotFound videoId)), s)
                    else
                      (Inr (videoId, speakerName, cachedData, the localVoiceSamplePath),
                       s\<lparr>cloneCalls := cloneCalls s @ [(JStr speakerName, the localVoiceSamplePath)]\<rparr>)))"

definition clone_voice_resume ::
  "env \<Rightarrow> state \<Rightarrow> string \<times> string \<times> cache_entry option \<times> string \<Rightarrow> response \<times> state" where
  "clone_voice_resume E s pending =
     (case pending of (videoId, speakerName, cachedData, localVoiceSamplePath) \<Rightarrow>
        (case cloneVoice E (JStr speakerName) localVoiceSamplePath of
           Inl x \<Rightarrow> (SendError 500 (FailedToCloneVoice x), s)
         | Inr newVoiceId \<Rightarrow>
             let dataToCache =
                   (case cachedData of None \<Rightarrow> empty_entry | Some e \<Rightarrow> e)
                     \<lparr>ce_voiceId := Some newVoiceId, ce_speakerName := Some speakerName\<rparr>
             in (case cache_setVideoData E s videoId dataToCache of
                   Inl x \<Rightarrow> (SendError 500 (FailedToCloneVoice x), s)
                 | Inr s2 \<Rightarrow>
                     let s3 = setVoiceId s2 videoId newVoiceId;
                         s4 = setVideoData s3 videoId newVoiceId speakerName
                     in (SendJson (JObj [(''videoId'', JStr videoId),
                                         (''voiceId'', JStr newVoiceId),
                                         (''message'', JStr ''Voice cloned successfully.'')]),
                         s4))))"

section \<open>Context windows\<close>

text \<open>
  Modelled from the spec: \<open>transcriptionService.getContextWindow\<close> is not among the sources.
  Section 4.4 (stage 6) describes it as \<open>buildContextWindow\<close>: the segments whose time ranges
  fall within \<open>[pausedTime - maxWindowSeconds, pausedTime]\<close>, their texts concatenated in
  order; when \<open>pausedTime\<close> precedes all segments, the earliest segments up to the window
  bound; on an empty transcript the empty string.
\<close>

definition buildContextWindow :: "segment list \<Rightarrow> real \<Rightarrow> real \<Rightarrow> string" where
  "buildContextWindow transcript pausedTime maxWindowSeconds =
     (if transcript = [] then []
      else if list_all (\<lambda>sg. pausedTime < seg_start sg) transcript
      then concat (map seg_text
             (filter (\<lambda>sg. seg_end sg \<le> seg_start (hd transcript) + maxWindowSeconds) transcript))
      else concat (map seg_text
             (filter (\<lambda>sg. pausedTime - maxWindowSeconds \<le> seg_start sg \<and> seg_end sg \<le> pausedTime)
                transcript)))"

text \<open>The router's helper \<open>getContextWindowForVideo\<close>; \<open>Inr None\<close> is its \<open>undefined\<close>.\<close>

definition getContextWindowForVideo :: "env \<Rightarrow> state \<Rightarrow> string \<Rightarrow> exn + string option" where
  "getContextWindowForVideo E s videoId =
     (case getTranscript s videoId of
        None \<Rightarrow> Inr None
      | Some segments \<Rightarrow>
          if length segments = 0 then Inr (Some [])
          else
            let middleTimestamp = seg_start (segments ! (length segments div 2)) in
            (case getContextWindow E segments middleTimestamp (MAX_CONTEXT_WINDOW_SECONDS E) of
               Inl x \<Rightarrow> Inl x
             | Inr w \<Rightarrow> Inr (Some w)))"

text \<open>POST /get-context-window.\<close>

definition get_context_window :: "env \<Rightarrow> state \<Rightarrow> json \<Rightarrow> response \<times> state" where
  "get_context_window E s body =
     (case getContextWindowSchema body of
        None \<Rightarrow> (SendError 400 InvalidRequestData, s)
      | Some (videoId, pausedTime) \<Rightarrow>
          let cached = getCachedContextWindow s videoId pausedTime in
          if truthy_str cached
          then (SendJson (JObj [(''contextWindow'', JStr (the cached))]), s)
          else
            (case getTranscript s videoId of
               None \<Rightarrow> (SendError 404 VideoTranscriptNotFound, s)
             | Some transcript \<Rightarrow>
                 (case getContextWindow E transcript pausedTime (MAX_CONTEXT_WINDOW_SECONDS E) of
                    Inl x \<Rightarrow> (SendError 500 (FailedToGetContextWindow x), s)
                  | Inr contextWindow \<Rightarrow>
                      (SendJson (JObj [(''contextWindow'', JStr contextWindow)]),
                       cacheContextWindow s videoId pausedTime contextWindow))))"

section \<open>POST /create-agent\<close>

text \<open>
  The body is not parsed by a schema: \<open>videoId\<close> and \<open>speakerName\<close> are only tested for
  truthiness. The Session Store is keyed by strings, so a \<open>videoId\<close> that is not a string
  finds no record.
\<close>

fun session_key :: "json \<Rightarrow> string option" where
  "session_key (JStr v) = Some v"
| "session_key j = None"

definition create_agent :: "env \<Rightarrow> state \<Rightarrow> json \<Rightarrow> response \<times> state" where
  "create_agent E s body =
     (if \<not> destructurable body then (SendError 500 (FailedToCreateAgent ''TypeError''), s)
      else
        let videoId = get_field body ''videoId'';
            speakerName = get_field body ''speakerName''
        in if \<not> truthy videoId \<or> \<not> truthy speakerName
           then (SendError 400 MissingRequiredParameters, s)
           else
             (case Option.bind (session_key videoId) (getVideoData s) of
                None \<Rightarrow> (SendError 400 VideoDataNotFound, s)
              | Some videoData \<Rightarrow>
                  let v = the (session_key videoId) in
                  if ss_transcript videoData = None \<or> length (the (ss_transcript videoData)) = 0
                  then (SendError 400 TranscriptMissingOrEmpty, s)
                  else
                    let existingAgentId = getAgentId s v in
                    if truthy_str existingAgentId
                    then (SendJson (JObj [(''agent_id'', JStr (the existingAgentId))]), s)
                    else
                      let voiceId = getVoiceId s v in
                      if \<not> truthy_str voiceId then (SendError 404 VoiceNotFound, s)
                      else
                        (case getContextWindowForVideo E s v of
                           Inl x \<Rightarrow> (SendError 500 (FailedToCreateAgent x), s)
                         | Inr contextWindow \<Rightarrow>
                             if \<not> truthy_str contextWindow
                             then (SendError 404 ContextWindowNotFound, s)
                             else
                               let s1 = s\<lparr>agentCalls := agentCalls s @
                                           [(speakerName, the voiceId, the contextWindow)]\<rparr>
                               in (case createAgent E speakerName (the voiceId) (the contextWindow) of
                                     Inl x \<Rightarrow> (SendError 500 (FailedToCreateAgent x), s1)
                                   | Inr agentId \<Rightarrow>
                                       (SendJson (JObj [(''agent_id'', JStr agentId)]),
                                        setAgentId s1 v agentId)))))"


section \<open>Completion of the durable pipeline\<close>

text \<open>
  Modelled from the spec: the worker is not among the sources. By Sections 2 and 3 a
  completed job has populated the Session Store with the transcript and the voice of the
  video, and the Cache Store with the voice.
\<close>

definition pipeline_completed :: "state \<Rightarrow> string \<Rightarrow> segment list \<Rightarrow> string \<Rightarrow> state" where
  "pipeline_completed s videoId transcript voiceId =
     (setVoiceId (setTranscript s videoId transcript) videoId voiceId)
       \<lparr>cache := cache_merge (cache s) videoId (empty_entry\<lparr>ce_voiceId := Some voiceId\<rparr>)\<rparr>"

section \<open>A sample configuration\<close>

text \<open>
  A freshly started server, and collaborators that always succeed, used to run the handlers
  on concrete requests.
\<close>

definition init_state :: state where
  "init_state =
     \<lparr>cache = Map.empty, memory = Map.empty, files = {}, cloneCalls = [], agentCalls = [],
      streamCalls = [], queue = []\<rparr>"

fun sample_extractVideoId :: "json \<Rightarrow> exn + string option" where
  "sample_extractVideoId (JStr u) =
     Inr (if take 9 u = ''youtu.be/'' \<and> drop 9 u \<noteq> [] then Some (drop 9 u) else None)"
| "sample_extractVideoId j = Inl ''url.match is not a function''"

definition sample_env :: env where
  "sample_env =
     \<lparr>isUrl = (\<lambda>u. take 8 u = ''https://''),
      extractVideoId = sample_extractVideoId,
      downloadAudioSegment = (\<lambda>videoUrl pausedTime. Inr ''segment.mp3''),
      transcribeAudio = (\<lambda>audioPath. Inr [\<lparr>seg_start = 0, seg_end = 4, seg_text = ''hello''\<rparr>]),
      extractVoiceSample = (\<lambda>audioPath duration. Inr ''sample.mp3''),
      cleanup = (\<lambda>path. Inr ()),
      cloneVoice = (\<lambda>speakerName samplePath. Inr ''voice-1''),
      getContextWindow = (\<lambda>t p w. Inr (buildContextWindow t p w)),
      buildConversationConfig = (\<lambda>voiceId speakerName contextWindow question. Inr JNull),
      createAgent = (\<lambda>speakerName voiceId contextWindow. Inr ''agent-1''),
      streamConversation = (\<lambda>agentId text. Inr JNull),
      queueAdd = (\<lambda>job. Inr ''1''),
      cacheReadFails = None,
      cacheWriteFails = None,
      MAX_QUESTIONS_PER_VIDEO = 2,
      MAX_CONTEXT_WINDOW_SECONDS = 30\<rparr>"


definition sample_stream_body :: "string \<Rightarrow> json" where
  "sample_stream_body v = JObj [(''videoId'', JStr v), (''text'', JStr ''why?'')]"

definition sample_transcript :: "segment list" where
  "sample_transcript =
     [\<lparr>seg_start = 0, seg_end = 10, seg_text = ''one''\<rparr>,
      \<lparr>seg_start = 10, seg_end = 20, seg_text = ''two''\<rparr>,
      \<lparr>seg_start = 20, seg_end = 30, seg_text = ''three''\<rparr>]"

text \<open>The server after the durable pipeline has completed for the video \<open>v1\<close>.\<close>

definition sample_state :: state where
  "sample_state = pipeline_completed init_state ''v1'' sample_transcript ''voice-1''"

definition sample_instant_body :: json where
  "sample_instant_body =
     JObj [(''videoUrl'', JStr ''youtu.be/v1''), (''pausedTime'', JNum 12), (''speakerName'', JStr ''Ada'')]"

definition sample_clone_body :: json where
  "sample_clone_body =
     JObj [(''videoId'', JStr ''v1''), (''speakerName'', JStr ''Ada''),
           (''sampleUrl'', JStr ''https://cdn.example/sample.mp3'')]"

definition sample_agent_body :: json where
  "sample_agent_body = JObj [(''videoId'', JStr ''v1''), (''speakerName'', JStr ''Ada'')]"

text \<open>
  A video prepared by an earlier stage: the voice sample is known to both stores, and no
  voice has been cloned yet.
\<close>

definition sample_prepared_state :: state where
  "sample_prepared_state =
     init_state\<lparr>
       cache := [''v1'' \<mapsto>
         \<lparr>ce_voiceId = None, ce_speakerName = Some ''Ada'', ce_voiceSamplePath = Some ''full.mp3''\<rparr>],
       memory := [''v1'' \<mapsto> empty_session\<lparr>ss_voiceSamplePath := Some ''full.mp3''\<rparr>]\<rparr>"

text \<open>
  The same server at the moment the cloning provider answers a POST /clone-voice that was
  started on \<open>sample_prepared_state\<close>, when another writer has meanwhile merged a new voice
  sample path into the entry of the video.
\<close>

definition sample_raced_state :: state where
  "sample_raced_state =
     (snd (clone_voice_begin sample_env sample_prepared_state sample_clone_body))\<lparr>
       cache := cache_merge
         (cache (snd (clone_voice_begin sample_env sample_prepared_state sample_clone_body)))
         ''v1'' (empty_entry\<lparr>ce_voiceSamplePath := Some ''new.mp3''\<rparr>)\<rparr>"

section \<open>Observations used by the properties\<close>

text \<open>The voice the Cache Store holds for a video, as both cache reads of the router see it.\<close>

definition cache_voiceId :: "state \<Rightarrow> string \<Rightarrow> string option" where
  "cache_voiceId s videoId = (case cache s videoId of None \<Rightarrow> None | Some e \<Rightarrow> ce_voiceId e)"



text \<open>
  Every context window cached in the Session Store belongs to a video whose transcript is
  known.
\<close>

definition windows_have_transcript :: "state \<Rightarrow> bool" where
  "windows_have_transcript s =
     (\<forall>v p. truthy_str (getCachedContextWindow s v p) \<longrightarrow> getTranscript s v \<noteq> None)"

section \<open>Properties of the quota guard\<close>

lemma truthy_str_iff: "truthy_str x \<longleftrightarrow> (\<exists>y. x = Some y \<and> y \<noteq> [])"
  by (cases x) simp_all


lemma getOrCreate_increment:
  "getOrCreate (incrementQuestionCount s v) w =
     (if w = v then (getOrCreate s v)\<lparr>ss_questionCount := Suc (ss_questionCount (getOrCreate s v))\<rparr>
      else getOrCreate s w)"
  by (simp add: getOrCreate_def incrementQuestionCount_def)


lemma getAgentId_increment:
  "getAgentId (incrementQuestionCount s v) w = getAgentId s w"
  by (simp add: getAgentId_def getOrCreate_increment)

lemma streamCalls_increment:
  "streamCalls (incrementQuestionCount s v) = streamCalls s"
  by (simp add: incrementQuestionCount_def)














text \<open>
  C3 (as amended). A schema-valid POST /stream-conversation about a video without an agent
  never reaches the provider and always fails: with 429 and an unchanged counter when the
  quota is already used up (the quota check comes first), and with 404 AgentNotFound otherwise.
\<close>

theorem stream_without_agent:
  assumes "streamConversationSchema body = Some (v, text)"
      and "\<not> truthy_str (getAgentId s v)"
  shows "streamCalls (snd (stream_conversation E s body)) = streamCalls s
       \<and> (if MAX_QUESTIONS_PER_VIDEO E \<le> getQuestionCount s v
          then fst (stream_conversation E s body)
                 = SendError 429 (MaxQuestionsExceeded (MAX_QUESTIONS_PER_VIDEO E))
             \<and> getQuestionCount (snd (stream_conversation E s body)) v = getQuestionCount s v
          else fst (stream_conversation E s body) = SendError 404 AgentNotFound)"
  using assms
  by (simp add: stream_conversation_def stream_conversation_begin_def Let_def
        getAgentId_increment streamCalls_increment)

theorem stream_without_agent_witness:
  "streamConversationSchema (sample_stream_body ''v1'') = Some (''v1'', ''why?'')
   \<and> \<not> truthy_str (getAgentId init_state ''v1'')
   \<and> streamCalls (snd (stream_conversation sample_env init_state (sample_stream_body ''v1''))) = []
   \<and> fst (stream_conversation sample_env init_state (sample_stream_body ''v1''))
       = SendError 404 AgentNotFound"
proof -
  have a: "streamConversationSchema (sample_stream_body ''v1'') = Some (''v1'', ''why?'')"
    by (simp add: sample_stream_body_def streamConversationSchema_def)
  have b: "\<not> truthy_str (getAgentId init_state ''v1'')"
    by (simp add: getAgentId_def getOrCreate_def init_state_def empty_session_def)
  have c0: "getQuestionCount init_state ''v1'' = 0"
    by (simp add: getQuestionCount_def getOrCreate_def init_state_def empty_session_def)
  have m: "MAX_QUESTIONS_PER_VIDEO sample_env = 2"
    by (simp add: sample_env_def)
  have i: "streamCalls init_state = []"
    by (simp add: init_state_def)
  from stream_without_agent [OF a b, of sample_env] a b c0 m i show ?thesis
    by simp
qed

text \<open>
  C3 as stated fails on the code: on a fresh server a turn about a video without an agent is
  answered 404 but moves the counter from 0 to 1, and with the quota used up the answer is
  429, not 404.
\<close>

theorem stream_without_agent_counterexample:
  "streamConversationSchema (sample_stream_body ''v1'') = Some (''v1'', ''why?'')
   \<and> getAgentId init_state ''v1'' = None
   \<and> getQuestionCount init_state ''v1'' = 0
   \<and> getQuestionCount (snd (stream_conversation sample_env init_state (sample_stream_body ''v1''))) ''v1'' = 1
   \<and> fst (stream_conversation (sample_env\<lparr>MAX_QUESTIONS_PER_VIDEO := 0\<rparr>) init_state
            (sample_stream_body ''v1''))
       = SendError 429 (MaxQuestionsExceeded 0)"
  by (simp add: sample_stream_body_def streamConversationSchema_def getAgentId_def getOrCreate_def
        init_state_def empty_session_def getQuestionCount_def sample_env_def
        stream_conversation_def stream_conversation_begin_def incrementQuestionCount_def Let_def)

section \<open>Properties of the cloning stage and the fast lane\<close>

lemma clone_voice_cache_hit_calls:
  assumes "cache_voiceId s v = Some vid" and "vid \<noteq> []"
      and "cloneVoiceSchema (isUrl E) body = Some (v, speakerName, sampleUrl)"
  shows "cloneCalls (snd (clone_voice E s body)) = cloneCalls s"
  using assms
  by (simp add: clone_voice_def cache_getVideoData_def cache_voiceId_def
           split: option.splits)

lemma clone_voice_cache_hit_reply:
  assumes "cache_voiceId s v = Some vid" and "vid \<noteq> []"
      and "cloneVoiceSchema (isUrl E) body = Some (v, speakerName, sampleUrl)"
      and "cacheReadFails E = None"
  shows "clone_voice E s body =
           (SendJson (JObj [(''videoId'', JStr v), (''voiceId'', JStr vid),
              (''message'', JStr ''Voice already cloned for this video (from cache).'')]), s)"
  using assms
  by (simp add: clone_voice_def cache_getVideoData_def cache_voiceId_def
           split: option.splits)

lemma instant_context_cache_hit_state:
  assumes "cache_voiceId s v = Some vid" and "vid \<noteq> []"
      and "extractVideoId E (get_field ibody ''videoUrl'') = Inr (Some v)"
  shows "cloneCalls (snd (instant_context E s ibody)) = cloneCalls s
       \<and> cache (snd (instant_context E s ibody)) = cache s"
  using assms
  by (simp add: instant_context_def instant_context_clone_def cache_getVoiceId_def
                cache_voiceId_def Let_def
           split: option.splits sum.splits)

lemma instant_context_cache_hit_reply:
  assumes "cache_voiceId s v = Some vid" and "vid \<noteq> []" and "v \<noteq> []"
      and "destructurable ibody"
      and "extractVideoId E (get_field ibody ''videoUrl'') = Inr (Some v)"
  shows "case fst (instant_context E s ibody) of
           SendJson j \<Rightarrow> get_field j ''voiceId'' = JStr vid
         | SendError n e \<Rightarrow> n = 500
         | r \<Rightarrow> False"
  using assms
  by (simp add: instant_context_def instant_context_clone_def cache_getVoiceId_def
                cache_voiceId_def Let_def
           split: option.splits sum.splits)

lemma instant_context_cache_hit_success:
  assumes "cache_voiceId s v = Some vid" and "vid \<noteq> []" and "v \<noteq> []"
      and "destructurable ibody"
      and "extractVideoId E (get_field ibody ''videoUrl'') = Inr (Some v)"
      and "cacheReadFails E = None"
      and "downloadAudioSegment E (get_field ibody ''videoUrl'') (get_field ibody ''pausedTime'')
             = Inr audioPath"
      and "transcribeAudio E audioPath = Inr t" and "cleanup E audioPath = Inr ()"
  shows "fst (instant_context E s ibody) =
           SendJson (JObj [(''videoId'', JStr v), (''voiceId'', JStr vid),
             (''contextWindow'', JStr (join_space (map seg_text t)))])"
  using assms
  by (simp add: instant_context_def instant_context_clone_def cache_getVoiceId_def
                cache_voiceId_def Let_def
           split: option.splits)

text \<open>A successful answer of either handler leaves the answered voice in the Cache Store.\<close>

lemma clone_voice_success_caches:
  assumes "cloneVoiceSchema (isUrl E) body = Some (v, sp, u)"
      and "fst (clone_voice E s body) = SendJson j"
  shows "\<exists>vid. get_field j ''voiceId'' = JStr vid
           \<and> cache_voiceId (snd (clone_voice E s body)) v = Some vid"
  using assms
  by (auto simp: clone_voice_def cache_getVideoData_def cache_setVideoData_def cache_voiceId_def
                 cache_merge_def merge_entry_def setVoiceId_def setVideoData_def truthy_str_iff
                 Let_def
           split: option.splits sum.splits if_splits)

lemma instant_context_success_caches:
  assumes "extractVideoId E (get_field body ''videoUrl'') = Inr (Some v)"
      and "fst (instant_context E s body) = SendJson j"
  shows "\<exists>vid. get_field j ''voiceId'' = JStr vid
           \<and> cache_voiceId (snd (instant_context E s body)) v = Some vid"
  using assms
  by (auto simp: instant_context_def instant_context_clone_def cache_getVoiceId_def
                 cache_setVideoData_def cache_voiceId_def cache_merge_def merge_entry_def
                 empty_entry_def truthy_str_iff Let_def
           split: option.splits sum.splits if_splits)

lemma successful_clone_caches:
  "(cloneVoiceSchema (isUrl E) body = Some (v, sp, u) \<and> fst (clone_voice E s body) = SendJson j \<longrightarrow>
      (\<exists>vid. get_field j ''voiceId'' = JStr vid
         \<and> cache_voiceId (snd (clone_voice E s body)) v = Some vid))
   \<and> (extractVideoId E (get_field ibody ''videoUrl'') = Inr (Some v)
        \<and> fst (instant_context E s ibody) = SendJson j \<longrightarrow>
      (\<exists>vid. get_field j ''voiceId'' = JStr vid
         \<and> cache_voiceId (snd (instant_context E s ibody)) v = Some vid))"
  using clone_voice_success_caches [of E body v sp u s j]
    instant_context_success_caches [of E ibody v s j]
  by blast

text \<open>
  C1. Let the Cache Store hold a voice \<open>vid\<close> for the video \<open>v\<close> (a non-empty identifier, as
  both handlers test it for truthiness). Then a schema-valid POST /clone-voice about \<open>v\<close>
  does not call the cloning collaborator and, the store being readable, answers with the cached
  voice and leaves the state as it was; and a POST /instant-context whose reference resolves to
  \<open>v\<close> does not call the cloning collaborator either, leaves the cached voice in place, can
  only answer with the cached voice or with a 500 of a failed download, transcription or
  file removal, and answers with the cached voice whenever these succeed.
\<close>

theorem clone_cache_hit:
  assumes "cache_voiceId s v = Some vid" and "vid \<noteq> []" and "v \<noteq> []"
      and "cloneVoiceSchema (isUrl E) body = Some (v, speakerName, sampleUrl)"
      and "destructurable ibody"
      and "extractVideoId E (get_field ibody ''videoUrl'') = Inr (Some v)"
  shows "cloneCalls (snd (clone_voice E s body)) = cloneCalls s
       \<and> (cacheReadFails E = None \<longrightarrow>
           clone_voice E s body =
             (SendJson (JObj [(''videoId'', JStr v), (''voiceId'', JStr vid),
                (''message'', JStr ''Voice already cloned for this video (from cache).'')]), s))
       \<and> cloneCalls (snd (instant_context E s ibody)) = cloneCalls s
       \<and> cache_voiceId (snd (instant_context E s ibody)) v = Some vid
       \<and> (case fst (instant_context E s ibody) of
           SendJson j \<Rightarrow> get_field j ''voiceId'' = JStr vid
         | SendError n e \<Rightarrow> n = 500
         | r \<Rightarrow> False)
       \<and> (cacheReadFails E = None
         \<and> downloadAudioSegment E (get_field ibody ''videoUrl'') (get_field ibody ''pausedTime'')
             = Inr audioPath
         \<and> transcribeAudio E audioPath = Inr t \<and> cleanup E audioPath = Inr () \<longrightarrow>
           fst (instant_context E s ibody) =
             SendJson (JObj [(''videoId'', JStr v), (''voiceId'', JStr vid),
               (''contextWindow'', JStr (join_space (map seg_text t)))]))"
proof -
  have c1: "cloneCalls (snd (clone_voice E s body)) = cloneCalls s"
    using assms(1,2,4) by (rule clone_voice_cache_hit_calls)
  have c2: "cacheReadFails E = None \<longrightarrow>
           clone_voice E s body =
             (SendJson (JObj [(''videoId'', JStr v), (''voiceId'', JStr vid),
                (''message'', JStr ''Voice already cloned for this video (from cache).'')]), s)"
    using clone_voice_cache_hit_reply [OF assms(1,2,4)] by blast
  have c3: "cloneCalls (snd (instant_context E s ibody)) = cloneCalls s"
    using instant_context_cache_hit_state [OF assms(1,2,6)] by simp
  have c4: "cache_voiceId (snd (instant_context E s ibody)) v = Some vid"
    using instant_context_cache_hit_state [OF assms(1,2,6)] assms(1)
    by (simp add: cache_voiceId_def)
  have c5: "case fst (instant_context E s ibody) of
           SendJson j \<Rightarrow> get_field j ''voiceId'' = JStr vid
         | SendError n e \<Rightarrow> n = 500
         | r \<Rightarrow> False"
    using assms(1,2,3,5,6) by (rule instant_context_cache_hit_reply)
  have c6: "cacheReadFails E = None
         \<and> downloadAudioSegment E (get_field ibody ''videoUrl'') (get_field ibody ''pausedTime'')
             = Inr audioPath
         \<and> transcribeAudio E audioPath = Inr t \<and> cleanup E audioPath = Inr () \<longrightarrow>
           fst (instant_context E s ibody) =
             SendJson (JObj [(''videoId'', JStr v), (''voiceId'', JStr vid),
               (''contextWindow'', JStr (join_space (map seg_text t)))])"
    using instant_context_cache_hit_success [OF assms(1,2,3,5,6)] by blast
  from c1 c2 c3 c4 c5 c6 show ?thesis by blast
qed

lemma sample_first_instant_context:
  "instant_context sample_env init_state sample_instant_body =
     (SendJson (JObj [(''videoId'', JStr ''v1''), (''voiceId'', JStr ''voice-1''),
        (''contextWindow'', JStr ''hello'')]),
      init_state\<lparr>cloneCalls := [(JStr ''Ada'', ''sample.mp3'')],
        cache := [''v1'' \<mapsto> \<lparr>ce_voiceId = Some ''voice-1'', ce_speakerName = None,
                                 ce_voiceSamplePath = None\<rparr>]\<rparr>)"
  by (simp add: instant_context_def instant_context_clone_def sample_env_def sample_instant_body_def
        init_state_def cache_getVoiceId_def cache_setVideoData_def cache_merge_def merge_entry_def
        empty_entry_def Let_def)

theorem clone_cache_hit_witness:
  "fst (instant_context sample_env init_state sample_instant_body) =
     SendJson (JObj [(''videoId'', JStr ''v1''), (''voiceId'', JStr ''voice-1''),
       (''contextWindow'', JStr ''hello'')])
   \<and> cloneCalls (snd (instant_context sample_env init_state sample_instant_body))
       = [(JStr ''Ada'', ''sample.mp3'')]
   \<and> cache_voiceId (snd (instant_context sample_env init_state sample_instant_body)) ''v1''
       = Some ''voice-1''
   \<and> cloneVoiceSchema (isUrl sample_env) sample_clone_body
        = Some (''v1'', ''Ada'', ''https://cdn.example/sample.mp3'')
   \<and> clone_voice sample_env (snd (instant_context sample_env init_state sample_instant_body))
        sample_clone_body =
        (SendJson (JObj [(''videoId'', JStr ''v1''), (''voiceId'', JStr ''voice-1''),
           (''message'', JStr ''Voice already cloned for this video (from cache).'')]),
         snd (instant_context sample_env init_state sample_instant_body))
   \<and> extractVideoId sample_env (get_field sample_instant_body ''videoUrl'') = Inr (Some ''v1'')
   \<and> cloneCalls (snd (instant_context sample_env
        (snd (instant_context sample_env init_state sample_instant_body)) sample_instant_body))
        = [(JStr ''Ada'', ''sample.mp3'')]
   \<and> fst (instant_context sample_env
        (snd (instant_context sample_env init_state sample_instant_body)) sample_instant_body) =
        SendJson (JObj [(''videoId'', JStr ''v1''), (''voiceId'', JStr ''voice-1''),
          (''contextWindow'', JStr ''hello'')])"
proof -
  let ?s1 = "snd (instant_context sample_env init_state sample_instant_body)"
  have r: "fst (instant_context sample_env init_state sample_instant_body) =
     SendJson (JObj [(''videoId'', JStr ''v1''), (''voiceId'', JStr ''voice-1''),
       (''contextWindow'', JStr ''hello'')])"
    by (simp add: sample_first_instant_context)
  have k: "cloneCalls ?s1 = [(JStr ''Ada'', ''sample.mp3'')]"
    by (simp add: sample_first_instant_context)
  have e: "extractVideoId sample_env (get_field sample_instant_body ''videoUrl'') = Inr (Some ''v1'')"
    by (simp add: sample_instant_body_def sample_env_def)
  from successful_clone_caches [where E = sample_env and s = init_state
      and ibody = sample_instant_body and v = "''v1''" and body = JNull and sp = "[]" and u = "[]"
      and j = "JObj [(''videoId'', JStr ''v1''), (''voiceId'', JStr ''voice-1''),
                     (''contextWindow'', JStr ''hello'')]"] e r
  have a: "cache_voiceId ?s1 ''v1'' = Some ''voice-1''"
    by simp
  have b: "''voice-1'' \<noteq> []" by simp
  have c: "cloneVoiceSchema (isUrl sample_env) sample_clone_body
             = Some (''v1'', ''Ada'', ''https://cdn.example/sample.mp3'')"
    by (simp add: cloneVoiceSchema_def sample_clone_body_def sample_env_def)
  have d: "destructurable sample_instant_body"
    by (simp add: sample_instant_body_def)
  have f: "cacheReadFails sample_env = None"
    "downloadAudioSegment sample_env (get_field sample_instant_body ''videoUrl'')
       (get_field sample_instant_body ''pausedTime'') = Inr ''segment.mp3''"
    "transcribeAudio sample_env ''segment.mp3'' = Inr [\<lparr>seg_start = 0, seg_end = 4, seg_text = ''hello''\<rparr>]"
    "cleanup sample_env ''segment.mp3'' = Inr ()"
    by (simp_all add: sample_env_def)
  have g: "''v1'' \<noteq> []" by simp
  from clone_cache_hit [OF a b g c d e, of "''segment.mp3''"] r k a c e f
  show ?thesis by simp
qed

text \<open>
  C4 fails on the code. The handler removes its transient files on the success path only: when
  the transcription of the downloaded segment fails, the \<open>catch\<close> answers 500 and the segment
  stays on disk.
\<close>

theorem instant_context_leaks_segment:
  "fst (instant_context (sample_env\<lparr>transcribeAudio := (\<lambda>audioPath. Inl ''provider unavailable'')\<rparr>)
          init_state sample_instant_body)
     = SendError 500 (FailedInstantContext ''provider unavailable'')
   \<and> files init_state = {}
   \<and> files (snd (instant_context
          (sample_env\<lparr>transcribeAudio := (\<lambda>audioPath. Inl ''provider unavailable'')\<rparr>)
          init_state sample_instant_body))
     = {''segment.mp3''}"
  by (simp add: instant_context_def sample_env_def sample_instant_body_def init_state_def
        cache_getVoiceId_def Let_def)

lemma instant_context_success_cleans:
  assumes "fst (instant_context E s body) = SendJson j"
  shows "files (snd (instant_context E s body)) \<subseteq> files s"
  using assms
  by (auto simp: instant_context_def instant_context_clone_def cache_setVideoData_def Let_def
           split: option.splits sum.splits if_splits)

text \<open>
  C7. For a video whose transcript is empty, the router's helper returns the empty string
  whatever the transcription service would do and whatever the window bound is (it never calls
  the service), and \<open>buildContextWindow\<close> of the design returns the empty string on the empty
  transcript for every \<open>pausedTime\<close> and window bound.
\<close>

theorem empty_transcript_context_window:
  assumes "getTranscript s v = Some []"
  shows "getContextWindowForVideo E s v = Inr (Some [])
       \<and> buildContextWindow [] pausedTime maxWindowSeconds = []"
  using assms by (simp add: getContextWindowForVideo_def buildContextWindow_def)

theorem empty_transcript_context_window_witness:
  "getTranscript (setTranscript init_state ''v1'' []) ''v1'' = Some []
   \<and> getContextWindowForVideo (sample_env\<lparr>getContextWindow := (\<lambda>t p w. Inl ''boom'')\<rparr>)
        (setTranscript init_state ''v1'' []) ''v1'' = Inr (Some [])
   \<and> buildContextWindow [] 12 30 = []"
proof -
  have a: "getTranscript (setTranscript init_state ''v1'' []) ''v1'' = Some []"
    by (simp add: getTranscript_def setTranscript_def getOrCreate_def init_state_def)
  from empty_transcript_context_window [OF a] a show ?thesis by simp
qed

text \<open>
  C9 fails on the code. POST /prepare-context never applies \<open>prepareContextSchema\<close>: a body
  the schema rejects is handed to the id extraction, and whenever that yields an id a job is
  enqueued and the answer is 202.
\<close>

theorem prepare_context_skips_schema:
  assumes "prepareContextSchema (isUrl E) body = None"
      and "destructurable body"
      and "extractVideoId E (get_field body ''videoUrl'') = Inr (Some v)" and "v \<noteq> []"
      and "queueAdd E (v, get_field body ''videoUrl'',
              if truthy (get_field body ''speakerName'') then get_field body ''speakerName''
              else JStr (''Speaker for '' @ v)) = Inr jobId"
  shows "status (fst (prepare_context E s body)) = Some 202
       \<and> queue (snd (prepare_context E s body)) =
           queue s @ [(v, get_field body ''videoUrl'',
              if truthy (get_field body ''speakerName'') then get_field body ''speakerName''
              else JStr (''Speaker for '' @ v))]"
  using assms
  by (cases "truthy (get_field body ''speakerName'')") (simp_all add: prepare_context_def Let_def)

theorem prepare_context_skips_schema_witness:
  "prepareContextSchema (isUrl sample_env) (JObj [(''videoUrl'', JStr ''youtu.be/v1'')]) = None
   \<and> status (fst (prepare_context sample_env init_state (JObj [(''videoUrl'', JStr ''youtu.be/v1'')])))
       = Some 202
   \<and> queue (snd (prepare_context sample_env init_state (JObj [(''videoUrl'', JStr ''youtu.be/v1'')])))
       = [(''v1'', JStr ''youtu.be/v1'', JStr ''Speaker for v1'')]"
proof -
  let ?b = "JObj [(''videoUrl'', JStr ''youtu.be/v1'')]"
  have a: "prepareContextSchema (isUrl sample_env) ?b = None"
    by (simp add: prepareContextSchema_def sample_env_def)
  have b: "destructurable ?b" by simp
  have c: "extractVideoId sample_env (get_field ?b ''videoUrl'') = Inr (Some ''v1'')"
    by (simp add: sample_env_def)
  have d: "''v1'' \<noteq> []" by simp
  have e: "queueAdd sample_env (''v1'', get_field ?b ''videoUrl'',
              if truthy (get_field ?b ''speakerName'') then get_field ?b ''speakerName''
              else JStr (''Speaker for '' @ ''v1'')) = Inr ''1''"
    by (simp add: sample_env_def)
  have q: "queue init_state = []" by (simp add: init_state_def)
  from prepare_context_skips_schema [OF a b c d e, of init_state] a q show ?thesis by simp
qed

section \<open>Properties of cache writes\<close>

lemma clone_voice_phases:
  "clone_voice E s body =
     (case clone_voice_begin E s body of
        (Inl r, s1) \<Rightarrow> (r, s1)
      | (Inr pending, s1) \<Rightarrow> clone_voice_resume E s1 pending)"
  by (simp add: clone_voice_def clone_voice_begin_def clone_voice_resume_def Let_def
        split: option.splits sum.splits)

lemma instant_context_clone_phases:
  "instant_context_clone E s1 videoId speakerName audioPath voiceId contextWindow =
     (if \<not> truthy_str voiceId then
        (case extractVoiceSample E audioPath 30 of
           Inl x \<Rightarrow> (SendError 500 (FailedInstantContext x), s1)
         | Inr voiceSamplePath \<Rightarrow>
             instant_context_resume E
               (s1\<lparr>files := insert voiceSamplePath (files s1),
                    cloneCalls := cloneCalls s1 @ [(speakerName, voiceSamplePath)]\<rparr>)
               videoId speakerName audioPath voiceSamplePath contextWindow)
      else
        (case cleanup E audioPath of
           Inl x \<Rightarrow> (SendError 500 (FailedInstantContext x), s1)
         | Inr u \<Rightarrow>
             (SendJson (JObj [(''videoId'', JStr videoId),
                              (''voiceId'', JStr (the voiceId)),
                              (''contextWindow'', JStr contextWindow)]),
              s1\<lparr>files := files s1 - {audioPath}\<rparr>)))"
  by (simp add: instant_context_clone_def instant_context_resume_def Let_def
        split: sum.splits)

lemma cache_setVideoData_frame:
  assumes "cache_setVideoData E s v partial = Inr s'" and "cache s w = Some e"
  shows "\<exists>e'. cache s' w = Some e'
            \<and> (w \<noteq> v \<longrightarrow> e' = e)
            \<and> (ce_voiceId partial = None \<longrightarrow> ce_voiceId e' = ce_voiceId e)
            \<and> (ce_speakerName partial = None \<longrightarrow> ce_speakerName e' = ce_speakerName e)
            \<and> (ce_voiceSamplePath partial = None \<or> ce_voiceSamplePath partial = ce_voiceSamplePath e
                 \<longrightarrow> ce_voiceSamplePath e' = ce_voiceSamplePath e)"
  using assms
  by (auto simp: cache_setVideoData_def cache_merge_def merge_entry_def
           split: option.splits)

lemma instant_context_resume_frame:
  assumes "cache s w = Some e"
  shows "\<exists>e'. cache (snd (instant_context_resume E s videoId speakerName audioPath
                              voiceSamplePath contextWindow)) w = Some e'
            \<and> ce_speakerName e' = ce_speakerName e
            \<and> ce_voiceSamplePath e' = ce_voiceSamplePath e
            \<and> (w \<noteq> videoId \<longrightarrow> e' = e)"
proof (cases "cloneVoice E speakerName voiceSamplePath")
  case (Inl x)
  then show ?thesis using assms by (simp add: instant_context_resume_def)
next
  case (Inr newVoiceId)
  show ?thesis
  proof (cases "cache_setVideoData E s videoId (empty_entry\<lparr>ce_voiceId := Some newVoiceId\<rparr>)")
    case (Inl x)
    then show ?thesis using assms Inr by (simp add: instant_context_resume_def)
  next
    case w: (Inr s3)
    from cache_setVideoData_frame [OF w assms]
    obtain e' where "cache s3 w = Some e'" "w \<noteq> videoId \<longrightarrow> e' = e"
      "ce_speakerName e' = ce_speakerName e" "ce_voiceSamplePath e' = ce_voiceSamplePath e"
      by (auto simp: empty_entry_def)
    then show ?thesis
      using Inr w
      by (simp add: instant_context_resume_def Let_def split: sum.splits)
  qed
qed

lemma clone_voice_resume_frame:
  assumes "cache s w = Some e"
  shows "\<exists>e'. cache (snd (clone_voice_resume E s (v, sp, cachedData, path))) w = Some e'
            \<and> (w \<noteq> v \<longrightarrow> e' = e)
            \<and> ((case cachedData of
                   None \<Rightarrow> True
                 | Some d \<Rightarrow> ce_voiceSamplePath d = None
                              \<or> ce_voiceSamplePath d = ce_voiceSamplePath e)
                 \<longrightarrow> ce_voiceSamplePath e' = ce_voiceSamplePath e)"
proof (cases "cloneVoice E (JStr sp) path")
  case (Inl x)
  then show ?thesis using assms by (simp add: clone_voice_resume_def)
next
  case (Inr newVoiceId)
  let ?d = "(case cachedData of None \<Rightarrow> empty_entry | Some e \<Rightarrow> e)
              \<lparr>ce_voiceId := Some newVoiceId, ce_speakerName := Some sp\<rparr>"
  show ?thesis
  proof (cases "cache_setVideoData E s v ?d")
    case (Inl x)
    then show ?thesis using assms Inr by (simp add: clone_voice_resume_def Let_def)
  next
    case w: (Inr s2)
    from cache_setVideoData_frame [OF w assms]
    obtain e' where e': "cache s2 w = Some e'" "w \<noteq> v \<longrightarrow> e' = e"
      "ce_voiceSamplePath ?d = None \<or> ce_voiceSamplePath ?d = ce_voiceSamplePath e
         \<longrightarrow> ce_voiceSamplePath e' = ce_voiceSamplePath e"
      by blast
    have c: "cache (snd (clone_voice_resume E s (v, sp, cachedData, path))) = cache s2"
      using Inr w by (simp add: clone_voice_resume_def Let_def setVoiceId_def setVideoData_def)
    show ?thesis
      using e' c by (auto simp: empty_entry_def split: option.splits)
  qed
qed

lemma instant_context_cache_frame:
  assumes "cache s w = Some e"
  shows "\<exists>e'. cache (snd (instant_context E s body)) w = Some e'
            \<and> ce_speakerName e' = ce_speakerName e
            \<and> ce_voiceSamplePath e' = ce_voiceSamplePath e"
  using assms
  by (auto simp: instant_context_def instant_context_clone_def cache_setVideoData_def
                 cache_merge_def merge_entry_def empty_entry_def Let_def
           split: option.splits sum.splits)

lemma clone_voice_cache_frame:
  assumes "cache s w = Some e"
  shows "\<exists>e'. cache (snd (clone_voice E s body)) w = Some e'
            \<and> ce_voiceSamplePath e' = ce_voiceSamplePath e
            \<and> (\<forall>v sp u. cloneVoiceSchema (isUrl E) body = Some (v, sp, u) \<and> w \<noteq> v \<longrightarrow> e' = e)"
  using assms
  by (auto simp: clone_voice_def cache_getVideoData_def cache_setVideoData_def
                 cache_merge_def merge_entry_def empty_entry_def Let_def
                 setVoiceId_def setVideoData_def
           split: option.splits sum.splits)



text \<open>
  C5 (as amended). Every cache write of the two handlers leaves the entries of all other
  videos as they are and keeps the unrelated fields of the video's own entry, on whatever
  state the write lands after the handler was suspended for the cloning provider: the write
  of POST /instant-context supplies the voice only and keeps the speaker name and the voice
  sample path; the write of POST /clone-voice writes back the entry the handler read before
  cloning, with the new voice and speaker name, and keeps the voice sample path whenever the
  entry read had none or the one the store still holds. Run without interleaving, both
  handlers keep these fields of every entry.
\<close>

theorem cache_writes_frame:
  "(\<forall>e. cache s w = Some e \<longrightarrow>
      (\<exists>e'. cache (snd (instant_context_resume E s videoId speakerName audioPath
                           voiceSamplePath contextWindow)) w = Some e'
           \<and> ce_speakerName e' = ce_speakerName e
           \<and> ce_voiceSamplePath e' = ce_voiceSamplePath e
           \<and> (w \<noteq> videoId \<longrightarrow> e' = e)))
   \<and> (\<forall>e. cache s w = Some e \<longrightarrow>
      (\<exists>e'. cache (snd (clone_voice_resume E s (v, sp, cachedData, path))) w = Some e'
           \<and> (w \<noteq> v \<longrightarrow> e' = e)
           \<and> ((case cachedData of
                  None \<Rightarrow> True
                | Some d \<Rightarrow> ce_voiceSamplePath d = None
                             \<or> ce_voiceSamplePath d = ce_voiceSamplePath e)
                \<longrightarrow> ce_voiceSamplePath e' = ce_voiceSamplePath e)))
   \<and> (\<forall>e. cache s w = Some e \<longrightarrow>
      (\<exists>e'. cache (snd (instant_context E s body)) w = Some e'
           \<and> ce_speakerName e' = ce_speakerName e
           \<and> ce_voiceSamplePath e' = ce_voiceSamplePath e))
   \<and> (\<forall>e. cache s w = Some e \<longrightarrow>
      (\<exists>e'. cache (snd (clone_voice E s body)) w = Some e'
           \<and> ce_voiceSamplePath e' = ce_voiceSamplePath e
           \<and> (\<forall>v sp u. cloneVoiceSchema (isUrl E) body = Some (v, sp, u) \<and> w \<noteq> v \<longrightarrow> e' = e)))"
  using instant_context_resume_frame [of s w _ E videoId speakerName audioPath voiceSamplePath
      contextWindow]
    clone_voice_resume_frame [of s w _ E v sp cachedData path]
    instant_context_cache_frame [of s w _ E body] clone_voice_cache_frame [of s w _ E body]
  by blast

lemma sample_clone_voice_begin:
  "clone_voice_begin sample_env sample_prepared_state sample_clone_body =
     (Inr (''v1'', ''Ada'',
           Some \<lparr>ce_voiceId = None, ce_speakerName = Some ''Ada'',
                  ce_voiceSamplePath = Some ''full.mp3''\<rparr>,
           ''full.mp3''),
      sample_prepared_state\<lparr>cloneCalls := [(JStr ''Ada'', ''full.mp3'')]\<rparr>)"
  by (simp add: clone_voice_begin_def cloneVoiceSchema_def sample_clone_body_def sample_env_def
        sample_prepared_state_def init_state_def cache_getVideoData_def getVideoData_def
        empty_session_def Let_def)

lemma sample_raced_cache:
  "cache sample_raced_state ''v1''
     = Some \<lparr>ce_voiceId = None, ce_speakerName = Some ''Ada'',
              ce_voiceSamplePath = Some ''new.mp3''\<rparr>"
  unfolding sample_raced_state_def sample_clone_voice_begin
  by (simp add: sample_prepared_state_def init_state_def cache_merge_def merge_entry_def
        empty_entry_def)

lemma sample_unraced_cache:
  "cache (snd (clone_voice_begin sample_env sample_prepared_state sample_clone_body)) ''v1''
     = Some \<lparr>ce_voiceId = None, ce_speakerName = Some ''Ada'',
              ce_voiceSamplePath = Some ''full.mp3''\<rparr>"
  unfolding sample_clone_voice_begin
  by (simp add: sample_prepared_state_def init_state_def)

theorem cache_writes_frame_witness:
  "cache (snd (clone_voice_begin sample_env sample_prepared_state sample_clone_body)) ''v1''
     = Some \<lparr>ce_voiceId = None, ce_speakerName = Some ''Ada'',
              ce_voiceSamplePath = Some ''full.mp3''\<rparr>
   \<and> (\<exists>e'. cache (snd (clone_voice_resume sample_env
                (snd (clone_voice_begin sample_env sample_prepared_state sample_clone_body))
                (''v1'', ''Ada'',
                 Some \<lparr>ce_voiceId = None, ce_speakerName = Some ''Ada'',
                        ce_voiceSamplePath = Some ''full.mp3''\<rparr>,
                 ''full.mp3''))) ''v1'' = Some e'
          \<and> ce_voiceSamplePath e' = Some ''full.mp3'')
   \<and> cache (snd (clone_voice sample_env sample_prepared_state sample_clone_body)) ''v1''
     = Some \<lparr>ce_voiceId = Some ''voice-1'', ce_speakerName = Some ''Ada'',
              ce_voiceSamplePath = Some ''full.mp3''\<rparr>
   \<and> cache sample_raced_state ''v1''
     = Some \<lparr>ce_voiceId = None, ce_speakerName = Some ''Ada'',
              ce_voiceSamplePath = Some ''new.mp3''\<rparr>
   \<and> (\<exists>e'. cache (snd (instant_context_resume sample_env sample_raced_state ''v1'' (JStr ''Ada'')
                ''segment.mp3'' ''sample.mp3'' ''hello'')) ''v1'' = Some e'
          \<and> ce_speakerName e' = Some ''Ada'' \<and> ce_voiceSamplePath e' = Some ''new.mp3'')
   \<and> cache (snd (instant_context_resume sample_env sample_raced_state ''v1'' (JStr ''Ada'')
                ''segment.mp3'' ''sample.mp3'' ''hello'')) ''v1''
     = Some \<lparr>ce_voiceId = Some ''voice-1'', ce_speakerName = Some ''Ada'',
              ce_voiceSamplePath = Some ''new.mp3''\<rparr>
   \<and> cache (snd (instant_context sample_env sample_prepared_state sample_instant_body)) ''v1''
     = Some \<lparr>ce_voiceId = Some ''voice-1'', ce_speakerName = Some ''Ada'',
              ce_voiceSamplePath = Some ''full.mp3''\<rparr>"
proof -
  let ?e = "\<lparr>ce_voiceId = None, ce_speakerName = Some ''Ada'', ce_voiceSamplePath = Some ''full.mp3''\<rparr>"
  let ?s1 = "snd (clone_voice_begin sample_env sample_prepared_state sample_clone_body)"
  have a: "cache ?s1 ''v1'' = Some ?e"
    by (rule sample_unraced_cache)
  from cache_writes_frame [where s = ?s1 and w = "''v1''" and E = sample_env and v = "''v1''"
      and sp = "''Ada''" and cachedData = "Some ?e" and path = "''full.mp3''"] a
  have b: "\<exists>e'. cache (snd (clone_voice_resume sample_env ?s1
                (''v1'', ''Ada'', Some ?e, ''full.mp3''))) ''v1'' = Some e'
          \<and> ce_voiceSamplePath e' = Some ''full.mp3''"
    by auto
  have c: "cache (snd (clone_voice sample_env sample_prepared_state sample_clone_body)) ''v1''
     = Some \<lparr>ce_voiceId = Some ''voice-1'', ce_speakerName = Some ''Ada'',
              ce_voiceSamplePath = Some ''full.mp3''\<rparr>"
    unfolding clone_voice_phases sample_clone_voice_begin
    by (simp add: clone_voice_resume_def sample_env_def
          cache_setVideoData_def cache_merge_def merge_entry_def sample_prepared_state_def
          init_state_def setVoiceId_def setVideoData_def Let_def)
  have d: "cache sample_raced_state ''v1''
     = Some \<lparr>ce_voiceId = None, ce_speakerName = Some ''Ada'',
              ce_voiceSamplePath = Some ''new.mp3''\<rparr>"
    by (rule sample_raced_cache)
  from cache_writes_frame [where s = sample_raced_state and w = "''v1''" and E = sample_env
      and videoId = "''v1''" and speakerName = "JStr ''Ada''" and audioPath = "''segment.mp3''"
      and voiceSamplePath = "''sample.mp3''" and contextWindow = "''hello''"] d
  have e: "\<exists>e'. cache (snd (instant_context_resume sample_env sample_raced_state ''v1'' (JStr ''Ada'')
                ''segment.mp3'' ''sample.mp3'' ''hello'')) ''v1'' = Some e'
          \<and> ce_speakerName e' = Some ''Ada'' \<and> ce_voiceSamplePath e' = Some ''new.mp3''"
    by auto
  have f: "cache (snd (instant_context_resume sample_env sample_raced_state ''v1'' (JStr ''Ada'')
                ''segment.mp3'' ''sample.mp3'' ''hello'')) ''v1''
     = Some \<lparr>ce_voiceId = Some ''voice-1'', ce_speakerName = Some ''Ada'',
              ce_voiceSamplePath = Some ''new.mp3''\<rparr>"
    using d
    by (simp add: instant_context_resume_def sample_env_def cache_setVideoData_def cache_merge_def
          merge_entry_def empty_entry_def Let_def)
  have g: "cache (snd (instant_context sample_env sample_prepared_state sample_instant_body)) ''v1''
     = Some \<lparr>ce_voiceId = Some ''voice-1'', ce_speakerName = Some ''Ada'',
              ce_voiceSamplePath = Some ''full.mp3''\<rparr>"
    by (simp add: instant_context_def instant_context_clone_phases instant_context_resume_def
          sample_env_def sample_instant_body_def sample_prepared_state_def init_state_def
          cache_getVoiceId_def cache_setVideoData_def cache_merge_def merge_entry_def
          empty_entry_def Let_def)
  from a b c d e f g show ?thesis by blast
qed

text \<open>
  C5 as stated fails on the code when writes race: POST /clone-voice reads the entry, is
  suspended for the cloning provider, and then writes the entry it read; a voice sample path
  that another writer merged in the meantime (here \<open>new.mp3\<close>) is set back to the value read
  (\<open>full.mp3\<close>), although the request supplies only the voice and the speaker name.
\<close>

theorem clone_voice_race_counterexample:
  "clone_voice_begin sample_env sample_prepared_state sample_clone_body =
     (Inr (''v1'', ''Ada'',
           Some \<lparr>ce_voiceId = None, ce_speakerName = Some ''Ada'',
                  ce_voiceSamplePath = Some ''full.mp3''\<rparr>,
           ''full.mp3''),
      sample_prepared_state\<lparr>cloneCalls := [(JStr ''Ada'', ''full.mp3'')]\<rparr>)
   \<and> cache sample_raced_state ''v1''
     = Some \<lparr>ce_voiceId = None, ce_speakerName = Some ''Ada'',
              ce_voiceSamplePath = Some ''new.mp3''\<rparr>
   \<and> fst (clone_voice_resume sample_env sample_raced_state
        (''v1'', ''Ada'',
         Some \<lparr>ce_voiceId = None, ce_speakerName = Some ''Ada'',
                ce_voiceSamplePath = Some ''full.mp3''\<rparr>,
         ''full.mp3''))
     = SendJson (JObj [(''videoId'', JStr ''v1''), (''voiceId'', JStr ''voice-1''),
         (''message'', JStr ''Voice cloned successfully.'')])
   \<and> cache (snd (clone_voice_resume sample_env sample_raced_state
        (''v1'', ''Ada'',
         Some \<lparr>ce_voiceId = None, ce_speakerName = Some ''Ada'',
                ce_voiceSamplePath = Some ''full.mp3''\<rparr>,
         ''full.mp3''))) ''v1''
     = Some \<lparr>ce_voiceId = Some ''voice-1'', ce_speakerName = Some ''Ada'',
              ce_voiceSamplePath = Some ''full.mp3''\<rparr>"
proof -
  have d: "cache sample_raced_state ''v1''
     = Some \<lparr>ce_voiceId = None, ce_speakerName = Some ''Ada'',
              ce_voiceSamplePath = Some ''new.mp3''\<rparr>"
    by (rule sample_raced_cache)
  have r: "fst (clone_voice_resume sample_env sample_raced_state
        (''v1'', ''Ada'',
         Some \<lparr>ce_voiceId = None, ce_speakerName = Some ''Ada'',
                ce_voiceSamplePath = Some ''full.mp3''\<rparr>,
         ''full.mp3''))
     = SendJson (JObj [(''videoId'', JStr ''v1''), (''voiceId'', JStr ''voice-1''),
         (''message'', JStr ''Voice cloned successfully.'')])"
    by (simp add: clone_voice_resume_def sample_env_def cache_setVideoData_def Let_def)
  have c: "cache (snd (clone_voice_resume sample_env sample_raced_state
        (''v1'', ''Ada'',
         Some \<lparr>ce_voiceId = None, ce_speakerName = Some ''Ada'',
                ce_voiceSamplePath = Some ''full.mp3''\<rparr>,
         ''full.mp3''))) ''v1''
     = Some \<lparr>ce_voiceId = Some ''voice-1'', ce_speakerName = Some ''Ada'',
              ce_voiceSamplePath = Some ''full.mp3''\<rparr>"
    using d
    by (simp add: clone_voice_resume_def sample_env_def cache_setVideoData_def cache_merge_def
          merge_entry_def setVoiceId_def setVideoData_def Let_def)
  from sample_clone_voice_begin d r c show ?thesis by blast
qed

section \<open>Properties of agent creation and context windows\<close>









text \<open>
  C10. Whenever POST /create-agent calls the agent-creation collaborator, the video has a
  non-empty transcript \<open>t\<close> and the context window passed to the collaborator is the one the
  transcription service builds around the start of the segment at index
  \<open>length t div 2\<close> with the bound \<open>MAX_CONTEXT_WINDOW_SECONDS\<close>; nothing else of the request
  body than the video and the speaker name enters the call.
\<close>

theorem create_agent_context_window:
  assumes "agentCalls (snd (create_agent E s body)) \<noteq> agentCalls s"
  shows "\<exists>v t w. get_field body ''videoId'' = JStr v \<and> getTranscript s v = Some t \<and> t \<noteq> []
           \<and> getContextWindow E t (seg_start (t ! (length t div 2))) (MAX_CONTEXT_WINDOW_SECONDS E)
               = Inr w
           \<and> agentCalls (snd (create_agent E s body))
               = agentCalls s @ [(get_field body ''speakerName'', the (getVoiceId s v), w)]"
  using assms
  by (cases "get_field body ''videoId''")
     (auto simp: create_agent_def Let_def getContextWindowForVideo_def setAgentId_def
                 getVideoData_def getTranscript_def getOrCreate_def
           split: option.splits sum.splits if_splits)


lemma sample_create_agent_calls:
  "agentCalls (snd (create_agent sample_env sample_state sample_agent_body))
     = [(JStr ''Ada'', ''voice-1'', ''one'')]"
  by (simp add: create_agent_def sample_env_def sample_state_def sample_agent_body_def
        pipeline_completed_def setVoiceId_def setTranscript_def getOrCreate_def init_state_def
        empty_session_def getVideoData_def getAgentId_def getVoiceId_def getTranscript_def
        getContextWindowForVideo_def buildContextWindow_def sample_transcript_def Let_def
        setAgentId_def)


theorem create_agent_context_window_witness:
  "agentCalls (snd (create_agent sample_env sample_state sample_agent_body)) \<noteq> agentCalls sample_state
   \<and> (\<exists>v t w. get_field sample_agent_body ''videoId'' = JStr v
         \<and> getTranscript sample_state v = Some t \<and> t \<noteq> []
         \<and> getContextWindow sample_env t (seg_start (t ! (length t div 2)))
              (MAX_CONTEXT_WINDOW_SECONDS sample_env) = Inr w
         \<and> agentCalls (snd (create_agent sample_env sample_state sample_agent_body))
              = agentCalls sample_state
                @ [(get_field sample_agent_body ''speakerName'', the (getVoiceId sample_state v), w)])"
proof -
  have z: "agentCalls sample_state = []"
    by (simp add: sample_state_def pipeline_completed_def setVoiceId_def setTranscript_def
          init_state_def)
  have a: "agentCalls (snd (create_agent sample_env sample_state sample_agent_body))
             \<noteq> agentCalls sample_state"
    by (simp add: sample_create_agent_calls z)
  from create_agent_context_window [OF a] a show ?thesis by blast
qed

lemma windows_have_transcript_init: "windows_have_transcript init_state"
  by (simp add: windows_have_transcript_def getCachedContextWindow_def getOrCreate_def
        init_state_def empty_session_def)

lemma getCached_cacheContextWindow:
  "getCachedContextWindow (cacheContextWindow s v p w) v' p' =
     (if v' = v \<and> p' = p then Some w else getCachedContextWindow s v' p')"
  by (simp add: getCachedContextWindow_def cacheContextWindow_def getOrCreate_def)

lemma getTranscript_cacheContextWindow:
  "getTranscript (cacheContextWindow s v p w) v' = getTranscript s v'"
  by (simp add: getTranscript_def cacheContextWindow_def getOrCreate_def)

lemma get_context_window_state:
  "snd (get_context_window E s body) = s
   \<or> (\<exists>v p w t. snd (get_context_window E s body) = cacheContextWindow s v p w
         \<and> getTranscript s v = Some t)"
  by (auto simp: get_context_window_def Let_def split: option.splits sum.splits)

lemma windows_have_transcript_get_context_window:
  assumes "windows_have_transcript s"
  shows "windows_have_transcript (snd (get_context_window E s body))"
  using get_context_window_state [of E s body] assms
  by (auto simp: windows_have_transcript_def getCached_cacheContextWindow
        getTranscript_cacheContextWindow split: if_splits) blast+

lemma windows_have_transcript_pipeline_completed:
  assumes "windows_have_transcript s"
  shows "windows_have_transcript (pipeline_completed s v t voiceId)"
  using assms
  by (auto simp: pipeline_completed_def setVoiceId_def setTranscript_def windows_have_transcript_def
                 getCachedContextWindow_def getTranscript_def getOrCreate_def
           split: option.splits if_splits)

text \<open>Every handler of the router keeps cached windows next to a transcript.\<close>

lemma windows_have_transcript_update:
  assumes "windows_have_transcript s"
      and "memory s' = (memory s)(v \<mapsto> r)"
      and "ss_transcript r = ss_transcript (getOrCreate s v)"
      and "ss_contextWindowCache r = ss_contextWindowCache (getOrCreate s v)"
  shows "windows_have_transcript s'"
proof -
  have "ss_transcript (getOrCreate s' w) = ss_transcript (getOrCreate s w)
      \<and> ss_contextWindowCache (getOrCreate s' w) = ss_contextWindowCache (getOrCreate s w)" for w
    using assms(2,3,4) by (simp add: getOrCreate_def)
  then show ?thesis
    using assms(1)
    by (simp add: windows_have_transcript_def getCachedContextWindow_def getTranscript_def)
qed

lemma windows_have_transcript_same_memory:
  assumes "windows_have_transcript s" and "memory s' = memory s"
  shows "windows_have_transcript s'"
  using assms
  by (simp add: windows_have_transcript_def getCachedContextWindow_def getTranscript_def
        getOrCreate_def)

lemma windows_have_transcript_increment:
  "windows_have_transcript s \<Longrightarrow> windows_have_transcript (incrementQuestionCount s v)"
  by (erule windows_have_transcript_update [where v = v
          and r = "(getOrCreate s v)\<lparr>ss_questionCount := Suc (ss_questionCount (getOrCreate s v))\<rparr>"])
     (simp_all add: incrementQuestionCount_def)

lemma windows_have_transcript_setAgentId:
  "windows_have_transcript s \<Longrightarrow> windows_have_transcript (setAgentId s v a)"
  by (erule windows_have_transcript_update [where v = v
          and r = "(getOrCreate s v)\<lparr>ss_agentId := Some a\<rparr>"])
     (simp_all add: setAgentId_def)

lemma windows_have_transcript_setVoiceId:
  "windows_have_transcript s \<Longrightarrow> windows_have_transcript (setVoiceId s v a)"
  by (erule windows_have_transcript_update [where v = v
          and r = "(getOrCreate s v)\<lparr>ss_voiceId := Some a\<rparr>"])
     (simp_all add: setVoiceId_def)

lemma windows_have_transcript_setVideoData:
  "windows_have_transcript s \<Longrightarrow> windows_have_transcript (setVideoData s v a n)"
  by (erule windows_have_transcript_update [where v = v
          and r = "(getOrCreate s v)\<lparr>ss_voiceId := Some a, ss_speakerName := Some n\<rparr>"])
     (simp_all add: setVideoData_def)

lemma windows_have_transcript_prepare_context:
  "windows_have_transcript s \<Longrightarrow> windows_have_transcript (snd (prepare_context E s body))"
  by (erule windows_have_transcript_same_memory)
     (simp add: prepare_context_def Let_def split: sum.splits)

lemma windows_have_transcript_instant_context:
  "windows_have_transcript s \<Longrightarrow> windows_have_transcript (snd (instant_context E s body))"
  by (erule windows_have_transcript_same_memory)
     (auto simp: instant_context_def instant_context_clone_def cache_setVideoData_def Let_def
        split: sum.splits option.splits)

lemma windows_have_transcript_build_conversation:
  "windows_have_transcript s \<Longrightarrow> windows_have_transcript (snd (build_conversation E s body))"
  by (simp add: build_conversation_def Let_def windows_have_transcript_increment
        split: sum.splits option.splits)

lemma windows_have_transcript_stream_conversation:
  assumes "windows_have_transcript s"
  shows "windows_have_transcript (snd (stream_conversation E s body))"
proof -
  have "snd (stream_conversation E s body) = s
      \<or> memory (snd (stream_conversation E s body)) = memory (incrementQuestionCount s (fst (the (streamConversationSchema body))))"
    by (simp add: stream_conversation_def stream_conversation_begin_def Let_def
          split: sum.splits option.splits)
  then show ?thesis
    using assms windows_have_transcript_increment [OF assms]
    by (auto intro: windows_have_transcript_same_memory)
qed

lemma windows_have_transcript_create_agent:
  assumes "windows_have_transcript s"
  shows "windows_have_transcript (snd (create_agent E s body))"
proof -
  have "memory (snd (create_agent E s body)) = memory s
      \<or> (\<exists>a. memory (snd (create_agent E s body))
                = memory (setAgentId s (the (session_key (get_field body ''videoId''))) a))"
    by (auto simp: create_agent_def Let_def setAgentId_def getOrCreate_def
          split: sum.splits option.splits)
  then show ?thesis
    using assms windows_have_transcript_setAgentId [OF assms]
    by (auto intro: windows_have_transcript_same_memory)
qed

lemma windows_have_transcript_clone_voice:
  assumes "windows_have_transcript s"
  shows "windows_have_transcript (snd (clone_voice E s body))"
proof -
  have "memory (snd (clone_voice E s body)) = memory s
      \<or> (\<exists>a. memory (snd (clone_voice E s body))
                = memory (setVideoData
                    (setVoiceId s (fst (the (cloneVoiceSchema (isUrl E) body))) a)
                    (fst (the (cloneVoiceSchema (isUrl E) body))) a
                    (fst (snd (the (cloneVoiceSchema (isUrl E) body))))))"
    by (auto simp: clone_voice_def Let_def setVoiceId_def setVideoData_def getOrCreate_def
          cache_setVideoData_def
          split: sum.splits option.splits)
  then show ?thesis
    using assms windows_have_transcript_setVideoData [OF windows_have_transcript_setVoiceId [OF assms]]
    by (metis windows_have_transcript_same_memory)
qed

lemma getCached_pipeline_completed:
  "getCachedContextWindow (pipeline_completed s v t voiceId) w p = getCachedContextWindow s w p"
  by (simp add: pipeline_completed_def setVoiceId_def setTranscript_def
        getCachedContextWindow_def getOrCreate_def empty_session_def split: option.splits)

lemma getTranscript_pipeline_completed:
  "getTranscript (pipeline_completed s v t voiceId) v = Some t"
  by (simp add: pipeline_completed_def setVoiceId_def setTranscript_def
        getTranscript_def getOrCreate_def)

lemma windows_have_transcript_router:
  assumes "windows_have_transcript s"
  shows "windows_have_transcript (snd (prepare_context E s body))
       \<and> windows_have_transcript (snd (instant_context E s body))
       \<and> windows_have_transcript (snd (clone_voice E s body))
       \<and> windows_have_transcript (snd (get_context_window E s body))
       \<and> windows_have_transcript (snd (build_conversation E s body))
       \<and> windows_have_transcript (snd (create_agent E s body))
       \<and> windows_have_transcript (snd (stream_conversation E s body))
       \<and> windows_have_transcript (pipeline_completed s v t voiceId)"
  using assms
  by (simp add: windows_have_transcript_prepare_context windows_have_transcript_instant_context
        windows_have_transcript_clone_voice windows_have_transcript_get_context_window
        windows_have_transcript_build_conversation windows_have_transcript_create_agent
        windows_have_transcript_stream_conversation windows_have_transcript_pipeline_completed)

lemma sample_stream_turn_state:
  "getTranscript (snd (stream_conversation sample_env init_state (sample_stream_body ''v1''))) ''v1'' = None
   \<and> getQuestionCount (snd (stream_conversation sample_env init_state (sample_stream_body ''v1''))) ''v1'' = 1"
  by (simp add: stream_conversation_def stream_conversation_begin_def sample_stream_body_def
        streamConversationSchema_def sample_env_def init_state_def getQuestionCount_def
        getOrCreate_def empty_session_def incrementQuestionCount_def getAgentId_def
        getTranscript_def Let_def)

text \<open>
  C8. For a schema-valid POST /get-context-window about a video without a known transcript
  the answer is 404 and nothing changes; once the durable pipeline has completed for the
  video with the transcript \<open>t\<close>, the same request succeeds with the context window built
  from \<open>t\<close>.
\<close>

theorem context_window_after_pipeline:
  assumes "getContextWindowSchema body = Some (v, p)"
      and "windows_have_transcript s"
      and "getTranscript s v = None"
      and "getContextWindow E = (\<lambda>t p w. Inr (buildContextWindow t p w))"
  shows "get_context_window E s body = (SendError 404 VideoTranscriptNotFound, s)
       \<and> fst (get_context_window E (pipeline_completed s v t voiceId) body)
           = SendJson (JObj [(''contextWindow'',
               JStr (buildContextWindow t p (MAX_CONTEXT_WINDOW_SECONDS E)))])"
proof -
  have nc: "\<not> truthy_str (getCachedContextWindow s v p)"
    using assms(2,3) by (auto simp: windows_have_transcript_def)
  have first: "get_context_window E s body = (SendError 404 VideoTranscriptNotFound, s)"
    using assms(1,3) nc by (simp add: get_context_window_def Let_def)
  have second: "fst (get_context_window E (pipeline_completed s v t voiceId) body)
           = SendJson (JObj [(''contextWindow'',
               JStr (buildContextWindow t p (MAX_CONTEXT_WINDOW_SECONDS E)))])"
    using assms(1,4) nc
    by (simp add: get_context_window_def Let_def getCached_pipeline_completed
          getTranscript_pipeline_completed)
  from first second show ?thesis by simp
qed

theorem context_window_after_pipeline_witness:
  "getContextWindowSchema (JObj [(''videoId'', JStr ''v1''), (''pausedTime'', JNum 12)]) = Some (''v1'', 12)
   \<and> windows_have_transcript (snd (stream_conversation sample_env init_state (sample_stream_body ''v1'')))
   \<and> getTranscript (snd (stream_conversation sample_env init_state (sample_stream_body ''v1''))) ''v1'' = None
   \<and> fst (get_context_window sample_env
        (snd (stream_conversation sample_env init_state (sample_stream_body ''v1'')))
        (JObj [(''videoId'', JStr ''v1''), (''pausedTime'', JNum 12)]))
       = SendError 404 VideoTranscriptNotFound
   \<and> fst (get_context_window sample_env
        (pipeline_completed (snd (stream_conversation sample_env init_state (sample_stream_body ''v1'')))
           ''v1'' sample_transcript ''voice-1'')
        (JObj [(''videoId'', JStr ''v1''), (''pausedTime'', JNum 12)]))
       = SendJson (JObj [(''contextWindow'', JStr ''one'')])"
proof -
  let ?b = "JObj [(''videoId'', JStr ''v1''), (''pausedTime'', JNum 12)]"
  let ?s = "snd (stream_conversation sample_env init_state (sample_stream_body ''v1''))"
  have a: "getContextWindowSchema ?b = Some (''v1'', 12)"
    by (simp add: getContextWindowSchema_def)
  have b: "windows_have_transcript ?s"
    using windows_have_transcript_router [OF windows_have_transcript_init] by blast
  have c: "getTranscript ?s ''v1'' = None"
    by (simp add: sample_stream_turn_state)
  have d: "getContextWindow sample_env = (\<lambda>t p w. Inr (buildContextWindow t p w))"
    by (simp add: sample_env_def)
  have e: "buildContextWindow sample_transcript 12 (MAX_CONTEXT_WINDOW_SECONDS sample_env) = ''one''"
    by (simp add: buildContextWindow_def sample_transcript_def sample_env_def)
  from context_window_after_pipeline [OF a b c d, of sample_transcript "''voice-1''"] a b c e
  show ?thesis by simp
qed

end
